theory Spec2Isabelle
  imports Main
begin

section \<open>JavaScript values and errors\<close>

text \<open>
  A JavaScript slot that the code tests for \<^verbatim>\<open>undefined\<close>, \<^verbatim>\<open>null\<close>, a string or an
  instance of a class. \<open>Obj x\<close> is an instance (a \<^verbatim>\<open>Color\<close> wrapping the symbol \<open>x\<close>, or a
  reference to a \<^verbatim>\<open>Player\<close> or \<^verbatim>\<open>Card\<close> object).
\<close>

datatype 'a jsval = Undefined | Null | Str string | Obj 'a

text \<open>A thrown exception: a \<^verbatim>\<open>TypeError\<close> of the runtime (property access on
  \<^verbatim>\<open>undefined\<close>/\<^verbatim>\<open>null\<close>, call of a non-function), an \<^verbatim>\<open>Error\<close> with its message, or a
  loop that never ends.\<close>

datatype error = TypeError | Error string | Diverges

text \<open>Truthiness of a slot (\<^verbatim>\<open>!x\<close> is its negation): only the empty string is a falsy string.\<close>

fun truthy :: "'a jsval \<Rightarrow> bool" where
  "truthy Undefined = False"
| "truthy Null = False"
| "truthy (Str s) = (s \<noteq> [])"
| "truthy (Obj x) = True"

section \<open>Color and Value\<close>

text \<open>Modelled from the spec: \<^verbatim>\<open>constants/colors\<close> and \<^verbatim>\<open>constants/values\<close> are not among the
  sources; the spec gives the closed symbol sets, each key mapping to its own name.\<close>

datatype color_sym = RED | GREEN | BLUE | YELLOW | BLACK

datatype value_sym =
    ZERO | ONE | TWO | THREE | FOUR | FIVE | SIX | SEVEN | EIGHT | NINE
  | SKIP | REVERSE | DRAW_TWO | WILD | WILD_DRAW_FOUR

definition color_names :: "(string \<times> color_sym) list" where
  "color_names = [(''RED'', RED), (''GREEN'', GREEN), (''BLUE'', BLUE),
                  (''YELLOW'', YELLOW), (''BLACK'', BLACK)]"

definition value_names :: "(string \<times> value_sym) list" where
  "value_names = [(''ZERO'', ZERO), (''ONE'', ONE), (''TWO'', TWO), (''THREE'', THREE),
                  (''FOUR'', FOUR), (''FIVE'', FIVE), (''SIX'', SIX), (''SEVEN'', SEVEN),
                  (''EIGHT'', EIGHT), (''NINE'', NINE), (''SKIP'', SKIP),
                  (''REVERSE'', REVERSE), (''DRAW_TWO'', DRAW_TWO), (''WILD'', WILD),
                  (''WILD_DRAW_FOUR'', WILD_DRAW_FOUR)]"

text \<open>\<^verbatim>\<open>new Color(color)\<close>: the symbol when \<^verbatim>\<open>COLORS.hasOwnProperty(color)\<close>, else it throws.\<close>

definition new_Color :: "string \<Rightarrow> error + color_sym" where
  "new_Color s = (case map_of color_names s of
                    Some c \<Rightarrow> Inr c
                  | None \<Rightarrow> Inl (Error (''Invalid color: '' @ s)))"

definition new_Value :: "string \<Rightarrow> error + value_sym" where
  "new_Value s = (case map_of value_names s of
                    Some v \<Rightarrow> Inr v
                  | None \<Rightarrow> Inl (Error (''Invalid value: '' @ s)))"

text \<open>\<^verbatim>\<open>Color.isWild\<close> and \<^verbatim>\<open>Value.isWild\<close>.\<close>

definition color_isWild :: "color_sym \<Rightarrow> bool" where
  "color_isWild c = (c = BLACK)"

definition value_isWild :: "value_sym \<Rightarrow> bool" where
  "value_isWild v = (v = WILD \<or> v = WILD_DRAW_FOUR)"

text \<open>The idiom \<^verbatim>\<open>typeof x === "string" ? new Color(x) : x\<close> of the \<^verbatim>\<open>color\<close> setter and
  of \<^verbatim>\<open>Deck.getCard\<close>: a string is wrapped (or rejected), anything else is kept as it is.\<close>

fun norm_color :: "color_sym jsval \<Rightarrow> error + color_sym jsval" where
  "norm_color (Str s) = (case new_Color s of Inl e \<Rightarrow> Inl e | Inr c \<Rightarrow> Inr (Obj c))"
| "norm_color x = Inr x"

fun norm_value :: "value_sym jsval \<Rightarrow> error + value_sym jsval" where
  "norm_value (Str s) = (case new_Value s of Inl e \<Rightarrow> Inl e | Inr v \<Rightarrow> Inr (Obj v))"
| "norm_value x = Inr x"

text \<open>Reading the property \<^verbatim>\<open>.color\<close> (or \<^verbatim>\<open>.value\<close>) of a slot: a \<^verbatim>\<open>TypeError\<close> on
  \<^verbatim>\<open>undefined\<close> and \<^verbatim>\<open>null\<close>, \<^verbatim>\<open>undefined\<close> (here \<open>None\<close>) on a string, the symbol on an
  instance. \<open>get_prop_opt\<close> is the optional chaining \<^verbatim>\<open>x?.color\<close>.\<close>

fun get_prop :: "'a jsval \<Rightarrow> error + 'a option" where
  "get_prop Undefined = Inl TypeError"
| "get_prop Null = Inl TypeError"
| "get_prop (Str s) = Inr None"
| "get_prop (Obj c) = Inr (Some c)"

fun get_prop_opt :: "'a jsval \<Rightarrow> 'a option" where
  "get_prop_opt (Obj c) = Some c"
| "get_prop_opt x = None"

section \<open>Card\<close>

text \<open>A \<^verbatim>\<open>Card\<close> object. The \<^verbatim>\<open>color\<close> setter stores whatever it is given (only strings are
  wrapped), and \<^verbatim>\<open>Game.play\<close> assigns \<^verbatim>\<open>wildPickedColor\<close> to it, so both are slots; the
  value is only ever set by the constructor, from a \<^verbatim>\<open>Value\<close>.\<close>

record card =
  color :: "color_sym jsval"
  val :: value_sym
  wild :: bool
  wildPickedColor :: "color_sym jsval"

text \<open>\<^verbatim>\<open>new Card(color, value, wild)\<close> with \<^verbatim>\<open>Color\<close> and \<^verbatim>\<open>Value\<close> instances.\<close>

definition new_Card :: "color_sym \<Rightarrow> value_sym \<Rightarrow> bool \<Rightarrow> card" where
  "new_Card c v w =
     (let wld = (w \<or> (color_isWild c \<and> value_isWild v))
      in \<lparr>color = Obj c, val = v, wild = wld,
          wildPickedColor = (if wld then Obj BLACK else Null)\<rparr>)"

text \<open>\<^verbatim>\<open>Card.isValidOn(card, toPlay, isStacking)\<close>; the top card is \<open>None\<close> when the
  argument is falsy.\<close>

definition isValidOn :: "card \<Rightarrow> card option \<Rightarrow> bool \<Rightarrow> bool \<Rightarrow> error + bool" where
  "isValidOn this topCard toPlay isStacking =
     (case topCard of
        None \<Rightarrow> Inr False
      | Some crd \<Rightarrow>
          if isStacking then
            (if val this \<in> set [DRAW_TWO, WILD_DRAW_FOUR]
             then Inr (val crd = val this)
             else Inr False)
          else if wild this \<and> wild crd then Inr False
          else if \<not> toPlay \<and> wild this then Inr True
          else if wild this then Inr (get_prop_opt (wildPickedColor this) \<noteq> Some BLACK)
          else (case get_prop (color this) of
                  Inl e \<Rightarrow> Inl e
                | Inr a \<Rightarrow>
                   (case get_prop (color crd) of
                      Inl e \<Rightarrow> Inl e
                    | Inr b \<Rightarrow> Inr (a = b \<or> val this = val crd))))"

section \<open>Deck\<close>

text \<open>Cards are objects: a deck holds references into a card heap, and an entry of the
  array may be \<^verbatim>\<open>null\<close> (\<open>None\<close>), which \<^verbatim>\<open>Game.start\<close> can put on the discard pile.\<close>

type_synonym cref = nat
type_synonym elem = "cref option"
type_synonym cheap = "cref \<Rightarrow> card"

text \<open>\<^verbatim>\<open>Array.prototype.find\<close>/\<^verbatim>\<open>findIndex\<close> with a callback that may throw: the index of
  the first entry the callback accepts; the callback runs on no entry after it.\<close>

fun find_first :: "('a \<Rightarrow> error + bool) \<Rightarrow> 'a list \<Rightarrow> error + nat option" where
  "find_first P [] = Inr None"
| "find_first P (x # xs) =
     (case P x of
        Inl e \<Rightarrow> Inl e
      | Inr True \<Rightarrow> Inr (Some 0)
      | Inr False \<Rightarrow>
          (case find_first P xs of
             Inl e \<Rightarrow> Inl e
           | Inr None \<Rightarrow> Inr None
           | Inr (Some i) \<Rightarrow> Inr (Some (Suc i))))"

text \<open>The properties \<^verbatim>\<open>c.color.color\<close> and \<^verbatim>\<open>c.value.value\<close> of a deck entry.\<close>

definition elem_color :: "cheap \<Rightarrow> elem \<Rightarrow> error + color_sym option" where
  "elem_color h e = (case e of None \<Rightarrow> Inl TypeError | Some r \<Rightarrow> get_prop (color (h r)))"

definition elem_value :: "cheap \<Rightarrow> elem \<Rightarrow> error + value_sym" where
  "elem_value h e = (case e of None \<Rightarrow> Inl TypeError | Some r \<Rightarrow> Inr (val (h r)))"

text \<open>\<^verbatim>\<open>getTopCard(remove)\<close>: \<^verbatim>\<open>cards.shift()\<close> or \<^verbatim>\<open>cards[0]\<close>; the result is \<open>None\<close> for
  \<^verbatim>\<open>undefined\<close> (an empty deck), else the entry, which may be \<^verbatim>\<open>null\<close>.\<close>

definition getTopCard :: "elem list \<Rightarrow> bool \<Rightarrow> elem option \<times> elem list" where
  "getTopCard cards remove =
     (case cards of
        [] \<Rightarrow> (None, cards)
      | e # rest \<Rightarrow> (Some e, if remove then rest else cards))"

text \<open>The callback of \<^verbatim>\<open>getCard\<close>'s \<^verbatim>\<open>find\<close>, on the normalised arguments.\<close>

definition getCard_matches ::
  "cheap \<Rightarrow> bool \<Rightarrow> color_sym jsval \<Rightarrow> value_sym jsval \<Rightarrow> elem \<Rightarrow> error + bool" where
  "getCard_matches h isWild col vl c =
     (case (if isWild \<or> \<not> truthy col then Inr True
            else (case elem_color h c of
                    Inl e \<Rightarrow> Inl e
                  | Inr a \<Rightarrow> (case get_prop col of Inl e \<Rightarrow> Inl e | Inr b \<Rightarrow> Inr (a = b)))) of
        Inl e \<Rightarrow> Inl e
      | Inr colorMatches \<Rightarrow>
         (case (if \<not> truthy vl then Inr True
                else (case elem_value h c of
                        Inl e \<Rightarrow> Inl e
                      | Inr a \<Rightarrow> (case get_prop vl of Inl e \<Rightarrow> Inl e | Inr b \<Rightarrow> Inr (Some a = b)))) of
            Inl e \<Rightarrow> Inl e
          | Inr valueMatches \<Rightarrow> Inr (colorMatches \<and> valueMatches)))"

text \<open>\<^verbatim>\<open>getCard(color, value)\<close>: the card found (\<open>None\<close> for the result \<^verbatim>\<open>null\<close>) and the
  card heap, in which a found wild card has its \<^verbatim>\<open>wildPickedColor\<close> overwritten.\<close>

definition getCard ::
  "cheap \<Rightarrow> elem list \<Rightarrow> color_sym jsval \<Rightarrow> value_sym jsval \<Rightarrow> error + (cref option \<times> cheap)" where
  "getCard h cards col vl =
     (if col = Undefined \<and> vl = Undefined then Inr (None, h)
      else
        (case norm_color col of
           Inl e \<Rightarrow> Inl e
         | Inr col' \<Rightarrow>
            (case norm_value vl of
               Inl e \<Rightarrow> Inl e
             | Inr vl' \<Rightarrow>
                (let isWild = (case vl' of Obj v \<Rightarrow> value_isWild v | _ \<Rightarrow> False)
                 in case find_first (getCard_matches h isWild col' vl') cards of
                      Inl e \<Rightarrow> Inl e
                    | Inr None \<Rightarrow> Inr (None, h)
                    | Inr (Some i) \<Rightarrow>
                       (case cards ! i of
                          None \<Rightarrow> Inr (None, h)
                        | Some r \<Rightarrow>
                            if wild (h r)
                            then Inr (Some r, h(r := (h r)\<lparr>wildPickedColor := col'\<rparr>))
                            else Inr (Some r, h))))))"

text \<open>The callback of \<^verbatim>\<open>removeCard\<close>'s \<^verbatim>\<open>findIndex\<close>:
  \<^verbatim>\<open>c === card || (c.color.color === card.color.color && c.value.value === card.value.value)\<close>.\<close>

definition removeCard_matches :: "cheap \<Rightarrow> elem \<Rightarrow> elem \<Rightarrow> error + bool" where
  "removeCard_matches h crd c =
     (if c = crd then Inr True
      else (case elem_color h c of
              Inl e \<Rightarrow> Inl e
            | Inr a \<Rightarrow>
               (case elem_color h crd of
                  Inl e \<Rightarrow> Inl e
                | Inr b \<Rightarrow>
                    if a = b
                    then (case elem_value h c of
                            Inl e \<Rightarrow> Inl e
                          | Inr v \<Rightarrow>
                             (case elem_value h crd of
                                Inl e \<Rightarrow> Inl e
                              | Inr w \<Rightarrow> Inr (v = w)))
                    else Inr False)))"

text \<open>\<^verbatim>\<open>removeCard(card)\<close>: whether an entry was removed, and the deck's array after
  \<^verbatim>\<open>splice(index, 1)\<close>.\<close>

definition removeCard :: "cheap \<Rightarrow> elem list \<Rightarrow> elem \<Rightarrow> error + (bool \<times> elem list)" where
  "removeCard h cards crd =
     (case find_first (removeCard_matches h crd) cards of
        Inl e \<Rightarrow> Inl e
      | Inr None \<Rightarrow> Inr (False, cards)
      | Inr (Some i) \<Rightarrow> Inr (True, take i cards @ drop (Suc i) cards))"

text \<open>\<^verbatim>\<open>addCard(card)\<close>: \<^verbatim>\<open>cards.unshift(card)\<close>.\<close>

definition addCard :: "elem list \<Rightarrow> elem \<Rightarrow> elem list" where
  "addCard cards crd = crd # cards"

section \<open>Player and the object store\<close>

type_synonym pref = nat

text \<open>A \<^verbatim>\<open>Player\<close> object: its hand is a \<^verbatim>\<open>Deck\<close> of its own (the constructor and
  \<^verbatim>\<open>Player.fromJSON\<close> each create one), so the hand's array is stored with the player.\<close>

record player =
  pname :: string
  hand :: "elem list"
  pid :: int

text \<open>The objects a game works on: the \<^verbatim>\<open>Card\<close> objects and the \<^verbatim>\<open>Player\<close> objects by
  reference, with the next unused reference of each kind, and the source of
  \<^verbatim>\<open>Math.random()\<close>, read as the stream of integers that \<^verbatim>\<open>Math.floor(Math.random() * n)\<close>
  is taken from (modulo \<open>n\<close>).\<close>

record store =
  cards_of :: cheap
  next_card :: cref
  players_of :: "pref \<Rightarrow> player"
  next_player :: pref
  rand_src :: "nat \<Rightarrow> nat"
  rand_pos :: nat

definition random_below :: "store \<Rightarrow> nat \<Rightarrow> nat \<times> store" where
  "random_below s n = (rand_src s (rand_pos s) mod n, s\<lparr>rand_pos := Suc (rand_pos s)\<rparr>)"

definition alloc_card :: "store \<Rightarrow> card \<Rightarrow> cref \<times> store" where
  "alloc_card s c =
     (next_card s, s\<lparr>cards_of := (cards_of s)(next_card s := c), next_card := Suc (next_card s)\<rparr>)"

text \<open>\<^verbatim>\<open>new Player(name, id)\<close>.\<close>

definition new_Player :: "store \<Rightarrow> string \<Rightarrow> int \<Rightarrow> pref \<times> store" where
  "new_Player s n i =
     (next_player s,
      s\<lparr>players_of := (players_of s)(next_player s := \<lparr>pname = n, hand = [], pid = i\<rparr>),
        next_player := Suc (next_player s)\<rparr>)"

definition set_hand :: "store \<Rightarrow> pref \<Rightarrow> elem list \<Rightarrow> store" where
  "set_hand s p h = s\<lparr>players_of := (players_of s)(p := (players_of s p)\<lparr>hand := h\<rparr>)\<rparr>"

definition hand_of :: "store \<Rightarrow> pref \<Rightarrow> elem list" where
  "hand_of s p = hand (players_of s p)"

text \<open>\<^verbatim>\<open>Player.getPlayableCards\<close>: the hand filtered by \<^verbatim>\<open>isValidOn\<close>, whose callback has
  no card to read on a \<^verbatim>\<open>null\<close> entry.\<close>

fun filter_err :: "('a \<Rightarrow> error + bool) \<Rightarrow> 'a list \<Rightarrow> error + 'a list" where
  "filter_err P [] = Inr []"
| "filter_err P (x # xs) =
     (case P x of
        Inl e \<Rightarrow> Inl e
      | Inr b \<Rightarrow>
         (case filter_err P xs of
            Inl e \<Rightarrow> Inl e
          | Inr ys \<Rightarrow> Inr (if b then x # ys else ys)))"

definition getPlayableCards ::
  "store \<Rightarrow> pref \<Rightarrow> card option \<Rightarrow> bool \<Rightarrow> bool \<Rightarrow> error + elem list" where
  "getPlayableCards s p crd toPlay isStacking =
     filter_err (\<lambda>c. case c of
                       None \<Rightarrow> Inl TypeError
                     | Some r \<Rightarrow> isValidOn (cards_of s r) crd toPlay isStacking)
                (hand_of s p)"

subsection \<open>Shuffling and the default cards\<close>

text \<open>\<^verbatim>\<open>Deck.shuffle\<close>: for \<open>i\<close> from \<open>length - 1\<close> down to \<open>1\<close>, swap the entries \<open>i\<close> and
  \<open>j = floor(random * (i + 1))\<close>.\<close>

fun shuffle_loop :: "store \<Rightarrow> elem list \<Rightarrow> nat \<Rightarrow> elem list \<times> store" where
  "shuffle_loop s cards 0 = (cards, s)"
| "shuffle_loop s cards (Suc i) =
     (case random_below s (Suc i + 1) of
        (j, s') \<Rightarrow> shuffle_loop s' (cards[Suc i := cards ! j, j := cards ! Suc i]) i)"

definition shuffle :: "store \<Rightarrow> elem list \<Rightarrow> elem list \<times> store" where
  "shuffle s cards = shuffle_loop s cards (length cards - 1)"

text \<open>The table \<^verbatim>\<open>constants/cardCounts\<close> is not among the sources: it is a parameter, the
  colours in key order, each with its values in key order and their counts.\<close>

type_synonym cardCounts = "(color_sym \<times> (value_sym \<times> nat) list) list"

text \<open>Modelled from the spec: the "standard 108-card distribution" the spec names for
  \<^verbatim>\<open>constants/cardCounts\<close>.\<close>

definition colored_counts :: "(value_sym \<times> nat) list" where
  "colored_counts =
     [(ZERO, 1), (ONE, 2), (TWO, 2), (THREE, 2), (FOUR, 2), (FIVE, 2), (SIX, 2), (SEVEN, 2),
      (EIGHT, 2), (NINE, 2), (SKIP, 2), (REVERSE, 2), (DRAW_TWO, 2)]"

definition standardCardCounts :: cardCounts where
  "standardCardCounts =
     [(RED, colored_counts), (GREEN, colored_counts), (BLUE, colored_counts),
      (YELLOW, colored_counts), (BLACK, [(WILD, 4), (WILD_DRAW_FOUR, 4)])]"

text \<open>\<^verbatim>\<open>Deck.insertDefaultCards\<close>: the three nested loops, each card a new object added
  on top, then the shuffle.\<close>

fun add_copies :: "store \<Rightarrow> elem list \<Rightarrow> color_sym \<Rightarrow> value_sym \<Rightarrow> nat \<Rightarrow> elem list \<times> store" where
  "add_copies s cards c v 0 = (cards, s)"
| "add_copies s cards c v (Suc n) =
     (case alloc_card s (new_Card c v (c = BLACK)) of
        (r, s') \<Rightarrow> add_copies s' (addCard cards (Some r)) c v n)"

fun add_values :: "store \<Rightarrow> elem list \<Rightarrow> color_sym \<Rightarrow> (value_sym \<times> nat) list \<Rightarrow> elem list \<times> store" where
  "add_values s cards c [] = (cards, s)"
| "add_values s cards c ((v, n) # rest) =
     (case add_copies s cards c v n of (cards', s') \<Rightarrow> add_values s' cards' c rest)"

fun add_colors :: "store \<Rightarrow> elem list \<Rightarrow> cardCounts \<Rightarrow> elem list \<times> store" where
  "add_colors s cards [] = (cards, s)"
| "add_colors s cards ((c, vs) # rest) =
     (case add_values s cards c vs of (cards', s') \<Rightarrow> add_colors s' cards' rest)"

definition insertDefaultCards :: "cardCounts \<Rightarrow> store \<Rightarrow> elem list \<times> store" where
  "insertDefaultCards cc s = (case add_colors s [] cc of (cards, s') \<Rightarrow> shuffle s' cards)"

text \<open>The number of cards of one default deck.\<close>

definition deckSize :: "cardCounts \<Rightarrow> nat" where
  "deckSize cc = sum_list (map (\<lambda>(c, vs). sum_list (map snd vs)) cc)"

subsection \<open>JSON of cards, decks and players\<close>

definition color_name :: "color_sym \<Rightarrow> string" where
  "color_name c = (case c of RED \<Rightarrow> ''RED'' | GREEN \<Rightarrow> ''GREEN'' | BLUE \<Rightarrow> ''BLUE''
                   | YELLOW \<Rightarrow> ''YELLOW'' | BLACK \<Rightarrow> ''BLACK'')"

definition value_name :: "value_sym \<Rightarrow> string" where
  "value_name v = (case v of ZERO \<Rightarrow> ''ZERO'' | ONE \<Rightarrow> ''ONE'' | TWO \<Rightarrow> ''TWO''
                   | THREE \<Rightarrow> ''THREE'' | FOUR \<Rightarrow> ''FOUR'' | FIVE \<Rightarrow> ''FIVE'' | SIX \<Rightarrow> ''SIX''
                   | SEVEN \<Rightarrow> ''SEVEN'' | EIGHT \<Rightarrow> ''EIGHT'' | NINE \<Rightarrow> ''NINE''
                   | SKIP \<Rightarrow> ''SKIP'' | REVERSE \<Rightarrow> ''REVERSE'' | DRAW_TWO \<Rightarrow> ''DRAW_TWO''
                   | WILD \<Rightarrow> ''WILD'' | WILD_DRAW_FOUR \<Rightarrow> ''WILD_DRAW_FOUR'')"

record card_json =
  j_color :: string
  j_value :: string
  j_wild :: bool
  j_wildPickedColor :: "string option"

record player_json =
  j_id :: int
  j_name :: string
  j_hand :: "card_json list"

text \<open>\<^verbatim>\<open>Card.toJSON\<close>: \<^verbatim>\<open>this.color.toJSON()\<close> needs a \<^verbatim>\<open>Color\<close>;
  \<^verbatim>\<open>this.wildPickedColor?.toJSON() ?? null\<close> gives \<^verbatim>\<open>null\<close> for \<^verbatim>\<open>undefined\<close> and \<^verbatim>\<open>null\<close>,
  and a string has no \<^verbatim>\<open>toJSON\<close> to call.\<close>

definition card_toJSON :: "card \<Rightarrow> error + card_json" where
  "card_toJSON c =
     (case color c of
        Obj col \<Rightarrow>
          (case wildPickedColor c of
             Str s \<Rightarrow> Inl TypeError
           | Obj w \<Rightarrow> Inr \<lparr>j_color = color_name col, j_value = value_name (val c),
                           j_wild = wild c, j_wildPickedColor = Some (color_name w)\<rparr>
           | _ \<Rightarrow> Inr \<lparr>j_color = color_name col, j_value = value_name (val c),
                       j_wild = wild c, j_wildPickedColor = None\<rparr>)
      | _ \<Rightarrow> Inl TypeError)"

text \<open>\<^verbatim>\<open>Card.fromJSON\<close>: a new \<^verbatim>\<open>Card\<close> object; a truthy \<^verbatim>\<open>wildPickedColor\<close> replaces the
  constructor's default.\<close>

definition card_fromJSON :: "store \<Rightarrow> card_json \<Rightarrow> error + (cref \<times> store)" where
  "card_fromJSON s j =
     (case new_Color (j_color j) of
        Inl e \<Rightarrow> Inl e
      | Inr col \<Rightarrow>
         (case new_Value (j_value j) of
            Inl e \<Rightarrow> Inl e
          | Inr v \<Rightarrow>
             (let c = new_Card col v (j_wild j)
              in case j_wildPickedColor j of
                   None \<Rightarrow> Inr (alloc_card s c)
                 | Some w \<Rightarrow>
                     if w = [] then Inr (alloc_card s c)
                     else (case new_Color w of
                             Inl e \<Rightarrow> Inl e
                           | Inr wc \<Rightarrow> Inr (alloc_card s (c\<lparr>wildPickedColor := Obj wc\<rparr>))))))"

text \<open>\<^verbatim>\<open>Deck.toJSON\<close> and \<^verbatim>\<open>Deck.fromJSON\<close>: a map over the entries, left to right.\<close>

fun deck_toJSON :: "cheap \<Rightarrow> elem list \<Rightarrow> error + card_json list" where
  "deck_toJSON h [] = Inr []"
| "deck_toJSON h (e # es) =
     (case e of
        None \<Rightarrow> Inl TypeError
      | Some r \<Rightarrow>
         (case card_toJSON (h r) of
            Inl err \<Rightarrow> Inl err
          | Inr j \<Rightarrow> (case deck_toJSON h es of Inl err \<Rightarrow> Inl err | Inr js \<Rightarrow> Inr (j # js))))"

fun deck_fromJSON :: "store \<Rightarrow> card_json list \<Rightarrow> error + (elem list \<times> store)" where
  "deck_fromJSON s [] = Inr ([], s)"
| "deck_fromJSON s (j # js) =
     (case card_fromJSON s j of
        Inl e \<Rightarrow> Inl e
      | Inr (r, s') \<Rightarrow>
         (case deck_fromJSON s' js of
            Inl e \<Rightarrow> Inl e
          | Inr (rs, s'') \<Rightarrow> Inr (Some r # rs, s'')))"

definition player_toJSON :: "store \<Rightarrow> pref \<Rightarrow> error + player_json" where
  "player_toJSON s p =
     (case deck_toJSON (cards_of s) (hand_of s p) of
        Inl e \<Rightarrow> Inl e
      | Inr h \<Rightarrow> Inr \<lparr>j_id = pid (players_of s p), j_name = pname (players_of s p), j_hand = h\<rparr>)"

definition player_fromJSON :: "store \<Rightarrow> player_json \<Rightarrow> error + (pref \<times> store)" where
  "player_fromJSON s j =
     (case new_Player s (j_name j) (j_id j) of
        (p, s1) \<Rightarrow>
          (case deck_fromJSON s1 (j_hand j) of
             Inl e \<Rightarrow> Inl e
           | Inr (h, s2) \<Rightarrow> Inr (p, set_hand s2 p h)))"

section \<open>Game\<close>

text \<open>The class \<^verbatim>\<open>Config\<close> is not among the sources: a configuration is the record of
  the options the game reads. The overrides (substituted classes, a custom
  \<^verbatim>\<open>gameLogic\<close>) are arbitrary code and are absent here: the built-in classes and the
  built-in dispatch are used.\<close>

record config =
  defaultRotation :: string
  playersPerDeck :: int
  initialCards :: int
  stackCards :: bool

datatype gstate = NOT_STARTED | PLAYING | STACK_DRAW | CONTEST

text \<open>Modelled from the spec: the event classes and the \<^verbatim>\<open>EventManager\<close> are not among the
  sources; the spec has listeners as passive observers called in order, so firing an
  event is recorded in a log of the payloads.\<close>

datatype event =
    PlayerDrawEvent pref "elem list"
  | PlayerPlayEvent pref cref "pref jsval"
  | PlayerChangeEvent "pref jsval"

text \<open>The fields of a \<^verbatim>\<open>Game\<close>. An initial player is a name (\<open>Str\<close>) or a \<^verbatim>\<open>Player\<close>
  instance (\<open>Obj\<close>); a deck of \<^verbatim>\<open>decks\<close> is the array of its cards.\<close>

record game =
  config :: config
  initPlayers :: "pref jsval list"
  rotation :: string
  currentPlayer :: "pref jsval"
  state :: gstate
  stackDrawAmount :: int
  discardedCards :: "elem list"
  decks :: "elem list list"
  players :: "pref list"
  eventLog :: "event list"

definition fireEvent :: "game \<Rightarrow> event \<Rightarrow> game" where
  "fireEvent g ev = g\<lparr>eventLog := eventLog g @ [ev]\<rparr>"

text \<open>The constructor: every entry of \<^verbatim>\<open>players\<close> is a string or a \<^verbatim>\<open>Player\<close>.\<close>

definition is_init_player :: "pref jsval \<Rightarrow> bool" where
  "is_init_player x = (case x of Str n \<Rightarrow> True | Obj p \<Rightarrow> True | _ \<Rightarrow> False)"

definition Game :: "pref jsval list \<Rightarrow> config \<Rightarrow> error + game" where
  "Game ps cfg =
     (if \<not> list_all is_init_player ps
      then Inl (Error ''Players must be an array of strings or Player instances'')
      else Inr \<lparr>config = cfg, initPlayers = ps, rotation = defaultRotation cfg,
                currentPlayer = Null, state = NOT_STARTED, stackDrawAmount = 0,
                discardedCards = [], decks = [], players = [], eventLog = []\<rparr>)"

text \<open>\<^verbatim>\<open>#getRandomFromArr\<close>: \<^verbatim>\<open>null\<close> (\<open>None\<close>) on an empty array, which calls no
  \<^verbatim>\<open>Math.random\<close>.\<close>

definition getRandomFromArr :: "store \<Rightarrow> 'a list \<Rightarrow> 'a option \<times> store" where
  "getRandomFromArr s arr =
     (if arr = [] then (None, s)
      else (case random_below s (length arr) of (j, s') \<Rightarrow> (Some (arr ! j), s')))"

text \<open>\<^verbatim>\<open>Array.prototype.indexOf\<close>, the remainder \<^verbatim>\<open>%\<close> of JavaScript (the sign of the
  dividend; \<^verbatim>\<open>NaN\<close>, here \<open>None\<close>, for a zero divisor) and the read \<^verbatim>\<open>arr[index]\<close>, which
  is \<^verbatim>\<open>undefined\<close> out of range.\<close>

fun indexOf :: "'a list \<Rightarrow> 'a \<Rightarrow> int" where
  "indexOf [] x = - 1"
| "indexOf (y # ys) x =
     (if y = x then 0 else (let r = indexOf ys x in if r < 0 then - 1 else r + 1))"

definition js_rem :: "int \<Rightarrow> int \<Rightarrow> int option" where
  "js_rem a n = (if n = 0 then None else Some (sgn a * (\<bar>a\<bar> mod \<bar>n\<bar>)))"

definition js_nth :: "'a list \<Rightarrow> int option \<Rightarrow> 'a jsval" where
  "js_nth xs i =
     (case i of
        None \<Rightarrow> Undefined
      | Some k \<Rightarrow> if 0 \<le> k \<and> k < int (length xs) then Obj (xs ! nat k) else Undefined)"

text \<open>\<^verbatim>\<open>getNextPlayer(rotation, currentPlayer)\<close>: an argument left out or \<^verbatim>\<open>undefined\<close>
  takes the game's field.\<close>

definition getNextPlayer ::
  "store \<Rightarrow> game \<Rightarrow> string option \<Rightarrow> pref jsval \<Rightarrow> error + (pref jsval \<times> store)" where
  "getNextPlayer s g rotArg curArg =
     (let rot = (case rotArg of None \<Rightarrow> rotation g | Some r \<Rightarrow> r);
          cur = (if curArg = Undefined then currentPlayer g else curArg)
      in if rot \<noteq> ''CW'' \<and> rot \<noteq> ''CCW''
         then Inl (Error ''Invalid rotation. It must be 'CW' or 'CCW'.'')
         else
           (case cur of
              Null \<Rightarrow>
                (case getRandomFromArr s (players g) of
                   (None, s') \<Rightarrow> Inr (Null, s')
                 | (Some p, s') \<Rightarrow> Inr (Obj p, s'))
            | Obj p \<Rightarrow>
                (let index = indexOf (players g) p;
                     n = int (length (players g));
                     index' = (if rot = ''CW'' then js_rem (index + 1) n
                               else js_rem (index - 1 + n) n)
                 in Inr (js_nth (players g) index', s))
            | _ \<Rightarrow> Inl (Error ''CurrentPlayer must be an instance of Player or null.'')))"

text \<open>\<^verbatim>\<open>setNextPlayer(silent)\<close> and \<^verbatim>\<open>flipDirection\<close>.\<close>

definition setNextPlayer :: "store \<Rightarrow> game \<Rightarrow> bool \<Rightarrow> error + (store \<times> game)" where
  "setNextPlayer s g silent =
     (case getNextPlayer s g None Undefined of
        Inl e \<Rightarrow> Inl e
      | Inr (np, s') \<Rightarrow>
          (let g' = g\<lparr>currentPlayer := np\<rparr>
           in Inr (s', if \<not> silent then fireEvent g' (PlayerChangeEvent np) else g')))"

definition flipDirection :: "game \<Rightarrow> game" where
  "flipDirection g = g\<lparr>rotation := (if rotation g = ''CW'' then ''CCW'' else ''CW'')\<rparr>"

text \<open>\<^verbatim>\<open>#getDeck\<close>. A \<^verbatim>\<open>Deck\<close> object of \<^verbatim>\<open>decks\<close> is named by its index there: the result
  is the index of the deck returned.\<close>

fun first_nonempty :: "'a list list \<Rightarrow> nat option" where
  "first_nonempty [] = None"
| "first_nonempty (d # ds) =
     (if length d > 0 then Some 0
      else (case first_nonempty ds of None \<Rightarrow> None | Some k \<Rightarrow> Some (Suc k)))"

definition getDeck :: "store \<Rightarrow> game \<Rightarrow> nat \<times> store \<times> game" where
  "getDeck s g =
     (case first_nonempty (decks g) of
        Some k \<Rightarrow> (k, s, g)
      | None \<Rightarrow>
         (case getTopCard (discardedCards g) True of
            (topCard, cardsToShuffle) \<Rightarrow>
              (let discarded = (case topCard of
                                  Some (Some r) \<Rightarrow> addCard [] (Some r)
                                | _ \<Rightarrow> [])
               in case shuffle s cardsToShuffle of
                    (deck, s') \<Rightarrow> (0, s', g\<lparr>discardedCards := discarded, decks := [deck]\<rparr>))))"

definition deck_at :: "game \<Rightarrow> nat \<Rightarrow> elem list" where
  "deck_at g k = (if k < length (decks g) then decks g ! k else [])"

text \<open>The loop of \<^verbatim>\<open>draw\<close>: \<open>k\<close> is the deck held in the variable \<^verbatim>\<open>deck\<close>, \<open>i\<close> the loop
  counter and \<open>drawn\<close> the array \<^verbatim>\<open>drawnCards\<close>. (\<^verbatim>\<open>shift()\<close> on a deck that is not empty
  returns an entry, so the branch for \<open>None\<close> is never taken.)\<close>

function draw_loop ::
  "store \<Rightarrow> game \<Rightarrow> nat \<Rightarrow> pref \<Rightarrow> int \<Rightarrow> int \<Rightarrow> elem list \<Rightarrow> store \<times> game \<times> elem list" where
  "draw_loop s g k p cards i drawn =
     (if i < cards then
        (if length (deck_at g k) > 0 then
           (case getTopCard (deck_at g k) True of
              (Some crd, rest) \<Rightarrow>
                draw_loop (set_hand s p (addCard (hand_of s p) crd))
                          (g\<lparr>decks := (decks g)[k := rest]\<rparr>) k p cards (i + 1)
                          (drawn @ [crd])
            | (None, rest) \<Rightarrow> (s, g, drawn))
         else
           (case getDeck s g of
              (k', s', g') \<Rightarrow>
                if length (deck_at g' k') = 0 then (s', g', drawn)
                else draw_loop s' g' k' p cards (i - 1 + 1) drawn))
      else (s, g, drawn))"
  by pat_completeness auto
termination
  by (relation "measure (\<lambda>(s, g, k, p, cards, i, drawn).
                   2 * nat (cards - i) + (if deck_at g k = [] then 1 else 0))")
     (auto simp: deck_at_def)

declare draw_loop.simps [simp del]

text \<open>\<^verbatim>\<open>draw(player, cards, isNext, silent, nextSilent, force)\<close>. The count is an integer
  here; the source also throws for a count that is no number or no integer.\<close>

definition draw ::
  "store \<Rightarrow> game \<Rightarrow> pref jsval \<Rightarrow> int \<Rightarrow> bool \<Rightarrow> bool \<Rightarrow> bool \<Rightarrow> bool
   \<Rightarrow> error + (bool \<times> store \<times> game)" where
  "draw s g player cards isNext silent nextSilent force =
     (if \<not> truthy player then Inl (Error ''No player provided'')
      else
        (case player of
           Obj p \<Rightarrow>
             if cards < 1 then Inl (Error ''Cards must be a positive integer'')
             else if \<not> force \<and> player \<noteq> currentPlayer g then Inr (False, s, g)
             else
               (case getDeck s g of
                  (k, s1, g1) \<Rightarrow>
                    (let cards' = (if state g1 = STACK_DRAW then stackDrawAmount g1 else cards);
                         g2 = (if state g1 = STACK_DRAW
                               then g1\<lparr>stackDrawAmount := 0, state := PLAYING\<rparr>
                               else g1)
                     in case draw_loop s1 g2 k p cards' 0 [] of
                          (s3, g3, drawnCards) \<Rightarrow>
                            (let g4 = (if \<not> silent
                                       then fireEvent g3 (PlayerDrawEvent p drawnCards)
                                       else g3)
                             in case (if isNext then setNextPlayer s3 g4 nextSilent
                                      else Inr (s3, g4)) of
                                  Inl e \<Rightarrow> Inl e
                                | Inr (s5, g5) \<Rightarrow>
                                    Inr (int (length drawnCards) = cards', s5, g5))))
         | _ \<Rightarrow> Inl (Error ''Player must be an instance of Player'')))"

text \<open>The cases \<^verbatim>\<open>DRAW_TWO\<close> and \<^verbatim>\<open>WILD_DRAW_FOUR\<close> of \<^verbatim>\<open>#gameLogic\<close> are the same code
  with the value searched for and the amount (2 or 4) exchanged.\<close>

definition nextPlayerHolds :: "store \<Rightarrow> game \<Rightarrow> value_sym \<Rightarrow> error + (bool \<times> store)" where
  "nextPlayerHolds s g v =
     (case getNextPlayer s g None Undefined of
        Inl e \<Rightarrow> Inl e
      | Inr (np, s1) \<Rightarrow>
         (case np of
            Obj q \<Rightarrow>
              (case getCard (cards_of s1) (hand_of s1 q) Undefined (Str (value_name v)) of
                 Inl e \<Rightarrow> Inl e
               | Inr (found, h) \<Rightarrow> Inr (found \<noteq> None, s1\<lparr>cards_of := h\<rparr>))
          | _ \<Rightarrow> Inl TypeError))"

definition drawCase :: "store \<Rightarrow> game \<Rightarrow> value_sym \<Rightarrow> int \<Rightarrow> error + (store \<times> game)" where
  "drawCase s g v amount =
     (case (if stackCards (config g) then nextPlayerHolds s g v else Inr (False, s)) of
        Inl e \<Rightarrow> Inl e
      | Inr (True, s1) \<Rightarrow>
          Inr (s1, g\<lparr>stackDrawAmount := stackDrawAmount g + amount, state := STACK_DRAW\<rparr>)
      | Inr (False, s1) \<Rightarrow>
          if state g = STACK_DRAW then
            (let g1 = g\<lparr>stackDrawAmount := stackDrawAmount g + amount\<rparr>
             in case getNextPlayer s1 g1 None Undefined of
                  Inl e \<Rightarrow> Inl e
                | Inr (np, s2) \<Rightarrow>
                   (case draw s2 g1 np (stackDrawAmount g1) True False True True of
                      Inl e \<Rightarrow> Inl e
                    | Inr (b, s3, g3) \<Rightarrow>
                        Inr (s3, g3\<lparr>stackDrawAmount := 0, state := PLAYING\<rparr>)))
          else
            (case getNextPlayer s1 g None Undefined of
               Inl e \<Rightarrow> Inl e
             | Inr (np, s2) \<Rightarrow>
                (case draw s2 g np amount True False True True of
                   Inl e \<Rightarrow> Inl e
                 | Inr (b, s3, g3) \<Rightarrow> Inr (s3, g3))))"

text \<open>\<^verbatim>\<open>#gameLogic(player, card)\<close>: the switch on the card's value.\<close>

definition gameLogic :: "store \<Rightarrow> game \<Rightarrow> pref \<Rightarrow> cref \<Rightarrow> error + (store \<times> game)" where
  "gameLogic s g p c =
     (case val (cards_of s c) of
        REVERSE \<Rightarrow>
          (let g1 = flipDirection g
           in if length (players g1) = 2 then setNextPlayer s g1 True else Inr (s, g1))
      | SKIP \<Rightarrow> setNextPlayer s g True
      | DRAW_TWO \<Rightarrow> drawCase s g DRAW_TWO 2
      | WILD_DRAW_FOUR \<Rightarrow> drawCase s g WILD_DRAW_FOUR 4
      | WILD \<Rightarrow> Inr (s, g)
      | _ \<Rightarrow> Inr (s, g))"

text \<open>The top of a pile as \<^verbatim>\<open>isValidOn\<close> sees it: \<^verbatim>\<open>undefined\<close> and \<^verbatim>\<open>null\<close> are no
  card.\<close>

definition topCardOf :: "store \<Rightarrow> elem list \<Rightarrow> card option" where
  "topCardOf s cards =
     (case fst (getTopCard cards False) of
        Some (Some r) \<Rightarrow> Some (cards_of s r)
      | _ \<Rightarrow> None)"

text \<open>\<^verbatim>\<open>play(player, card)\<close>.\<close>

definition play ::
  "store \<Rightarrow> game \<Rightarrow> pref jsval \<Rightarrow> cref jsval \<Rightarrow> error + (bool \<times> store \<times> game)" where
  "play s g player crd =
     (if \<not> truthy player then Inl (Error ''No player provided'')
      else
        (case player of
           Obj p \<Rightarrow>
             if \<not> truthy crd then Inl (Error ''No card provided'')
             else
               (case crd of
                  Obj c \<Rightarrow>
                    if Some c \<in> set (hand_of s p) \<and> player = currentPlayer g then
                      (case isValidOn (cards_of s c) (topCardOf s (discardedCards g)) True
                              (stackCards (config g) \<and> state g = STACK_DRAW) of
                         Inl e \<Rightarrow> Inl e
                       | Inr False \<Rightarrow> Inr (False, s, g)
                       | Inr True \<Rightarrow>
                          (case (if wild (cards_of s c)
                                 then (case norm_color (wildPickedColor (cards_of s c)) of
                                         Inl e \<Rightarrow> Inl e
                                       | Inr col \<Rightarrow>
                                           Inr (s\<lparr>cards_of :=
                                                  (cards_of s)(c := (cards_of s c)\<lparr>color := col\<rparr>)\<rparr>))
                                 else Inr s) of
                             Inl e \<Rightarrow> Inl e
                           | Inr s1 \<Rightarrow>
                              (case gameLogic s1 g p c of
                                 Inl e \<Rightarrow> Inl e
                               | Inr (s2, g2) \<Rightarrow>
                                  (case removeCard (cards_of s2) (hand_of s2 p) (Some c) of
                                     Inl e \<Rightarrow> Inl e
                                   | Inr (removed, hand') \<Rightarrow>
                                      (let s3 = set_hand s2 p hand';
                                           g3 = g2\<lparr>discardedCards :=
                                                     addCard (discardedCards g2) (Some c)\<rparr>
                                       in case getNextPlayer s3 g3 None Undefined of
                                            Inl e \<Rightarrow> Inl e
                                          | Inr (np, s4) \<Rightarrow>
                                             (case setNextPlayer s4
                                                     (fireEvent g3 (PlayerPlayEvent p c np))
                                                     False of
                                                Inl e \<Rightarrow> Inl e
                                              | Inr (s5, g5) \<Rightarrow> Inr (True, s5, g5)))))))
                    else Inr (False, s, g)
                | _ \<Rightarrow> Inl (Error ''Card must be an instance of Card''))
         | _ \<Rightarrow> Inl (Error ''Player must be an instance of Player'')))"

subsection \<open>Starting a game\<close>

text \<open>\<^verbatim>\<open>Math.ceil(initPlayers.length / playersPerDeck)\<close> as the bound of the loop that
  builds the decks: with no players per deck the quotient is \<^verbatim>\<open>Infinity\<close> and the loop
  never ends (\<open>None\<close>); a bound below one builds no deck.\<close>

definition decksNeeded :: "nat \<Rightarrow> int \<Rightarrow> nat option" where
  "decksNeeded n ppd =
     (if ppd = 0 then (if n = 0 then Some 0 else None)
      else Some (nat (- ((- int n) div ppd))))"

fun push_decks :: "cardCounts \<Rightarrow> store \<Rightarrow> game \<Rightarrow> nat \<Rightarrow> store \<times> game" where
  "push_decks cc s g 0 = (s, g)"
| "push_decks cc s g (Suc n) =
     (case insertDefaultCards cc s of
        (d, s') \<Rightarrow> push_decks cc s' (g\<lparr>decks := decks g @ [d]\<rparr>) n)"

text \<open>The loop over \<^verbatim>\<open>initPlayers\<close>: a name becomes a new \<^verbatim>\<open>Player\<close> with the index as
  id, the player is dealt \<^verbatim>\<open>initialCards\<close> cards by a forced, silent draw and pushed on
  \<^verbatim>\<open>players\<close>. (\<^verbatim>\<open>draw\<close> throws for anything but a \<^verbatim>\<open>Player\<close>, so only a \<^verbatim>\<open>Player\<close> is
  pushed.)\<close>

fun start_players :: "store \<Rightarrow> game \<Rightarrow> pref jsval list \<Rightarrow> int \<Rightarrow> error + (store \<times> game)" where
  "start_players s g [] i = Inr (s, g)"
| "start_players s g (x # xs) i =
     (case (case x of
              Str n \<Rightarrow> (case new_Player s n i of (p, s') \<Rightarrow> (Obj p, s'))
            | _ \<Rightarrow> (x, s)) of
        (player, s1) \<Rightarrow>
          (case draw s1 g player (initialCards (config g)) False True True True of
             Inl e \<Rightarrow> Inl e
           | Inr (b, s2, g2) \<Rightarrow>
              (case player of
                 Obj p \<Rightarrow> start_players s2 (g2\<lparr>players := players g2 @ [p]\<rparr>) xs (i + 1)
               | _ \<Rightarrow> Inl TypeError)))"

text \<open>The filter for a valid first card.\<close>

definition validFirstCard :: "cheap \<Rightarrow> elem \<Rightarrow> error + bool" where
  "validFirstCard h c =
     (case elem_color h c of
        Inl e \<Rightarrow> Inl e
      | Inr col \<Rightarrow>
          if col \<noteq> Some BLACK
          then (case elem_value h c of
                  Inl e \<Rightarrow> Inl e
                | Inr v \<Rightarrow> Inr (v \<noteq> DRAW_TWO \<and> v \<noteq> REVERSE \<and> v \<noteq> SKIP))
          else Inr False)"

text \<open>\<^verbatim>\<open>start()\<close>.\<close>

definition start :: "cardCounts \<Rightarrow> store \<Rightarrow> game \<Rightarrow> error + (store \<times> game)" where
  "start cc s g =
     (if length (initPlayers g) < 2 then Inl (Error ''Not enough players'')
      else if state g \<noteq> NOT_STARTED then Inl (Error ''Game already started'')
      else
        (case decksNeeded (length (initPlayers g)) (playersPerDeck (config g)) of
           None \<Rightarrow> Inl Diverges
         | Some n \<Rightarrow>
            (case push_decks cc s g n of
               (s1, g1) \<Rightarrow>
                 (case start_players s1 g1 (initPlayers g1) 0 of
                    Inl e \<Rightarrow> Inl e
                  | Inr (s2, g2) \<Rightarrow>
                     (case getRandomFromArr s2 (players g2) of
                        (cur, s3) \<Rightarrow>
                          (let g3 = g2\<lparr>currentPlayer :=
                                        (case cur of None \<Rightarrow> Null | Some p \<Rightarrow> Obj p)\<rparr>
                           in case getDeck s3 g3 of
                                (k, s4, g4) \<Rightarrow>
                                  (case filter_err (validFirstCard (cards_of s4)) (deck_at g4 k) of
                                     Inl e \<Rightarrow> Inl e
                                   | Inr validFirstCards \<Rightarrow>
                                      (case getRandomFromArr s4 validFirstCards of
                                         (pick, s5) \<Rightarrow>
                                           (let crd = (case pick of None \<Rightarrow> None | Some e \<Rightarrow> e);
                                                g5 = g4\<lparr>discardedCards :=
                                                          addCard (discardedCards g4) crd\<rparr>
                                            in case removeCard (cards_of s5) (deck_at g5 k) crd of
                                                 Inl e \<Rightarrow> Inl e
                                               | Inr (removed, deck') \<Rightarrow>
                                                   Inr (s5, g5\<lparr>decks := (decks g5)[k := deck'],
                                                               state := PLAYING\<rparr>))))))))))"

subsection \<open>Serialisation\<close>

text \<open>The object \<^verbatim>\<open>toJSON()\<close> returns. \<^verbatim>\<open>currentPlayer\<close> is the field itself, a reference
  to the \<^verbatim>\<open>Player\<close> object. The four fields \<^verbatim>\<open>fromJSON\<close> tests are optional.\<close>

record game_json =
  j_config :: config
  j_initPlayers :: "player_json jsval list option"
  j_rotation :: string
  j_currentPlayer :: "pref jsval"
  j_state :: gstate
  j_discardedCards :: "card_json list option"
  j_decks :: "card_json list list option"
  j_players :: "player_json list option"

fun initPlayers_toJSON :: "store \<Rightarrow> pref jsval list \<Rightarrow> error + player_json jsval list" where
  "initPlayers_toJSON s [] = Inr []"
| "initPlayers_toJSON s (x # xs) =
     (case (case x of
              Obj p \<Rightarrow> (case player_toJSON s p of Inl e \<Rightarrow> Inl e | Inr j \<Rightarrow> Inr (Obj j))
            | Str n \<Rightarrow> Inr (Str n)
            | Null \<Rightarrow> Inr Null
            | Undefined \<Rightarrow> Inr Undefined) of
        Inl e \<Rightarrow> Inl e
      | Inr j \<Rightarrow>
         (case initPlayers_toJSON s xs of Inl e \<Rightarrow> Inl e | Inr js \<Rightarrow> Inr (j # js)))"

fun decks_toJSON :: "cheap \<Rightarrow> elem list list \<Rightarrow> error + card_json list list" where
  "decks_toJSON h [] = Inr []"
| "decks_toJSON h (d # ds) =
     (case deck_toJSON h d of
        Inl e \<Rightarrow> Inl e
      | Inr j \<Rightarrow> (case decks_toJSON h ds of Inl e \<Rightarrow> Inl e | Inr js \<Rightarrow> Inr (j # js)))"

fun players_toJSON :: "store \<Rightarrow> pref list \<Rightarrow> error + player_json list" where
  "players_toJSON s [] = Inr []"
| "players_toJSON s (p # ps) =
     (case player_toJSON s p of
        Inl e \<Rightarrow> Inl e
      | Inr j \<Rightarrow> (case players_toJSON s ps of Inl e \<Rightarrow> Inl e | Inr js \<Rightarrow> Inr (j # js)))"

definition toJSON :: "store \<Rightarrow> game \<Rightarrow> error + game_json" where
  "toJSON s g =
     (case initPlayers_toJSON s (initPlayers g) of
        Inl e \<Rightarrow> Inl e
      | Inr ips \<Rightarrow>
         (case deck_toJSON (cards_of s) (discardedCards g) of
            Inl e \<Rightarrow> Inl e
          | Inr dc \<Rightarrow>
             (case decks_toJSON (cards_of s) (decks g) of
                Inl e \<Rightarrow> Inl e
              | Inr ds \<Rightarrow>
                 (case players_toJSON s (players g) of
                    Inl e \<Rightarrow> Inl e
                  | Inr ps \<Rightarrow>
                      Inr \<lparr>j_config = config g, j_initPlayers = Some ips,
                           j_rotation = rotation g, j_currentPlayer = currentPlayer g,
                           j_state = state g, j_discardedCards = Some dc,
                           j_decks = Some ds, j_players = Some ps\<rparr>))))"

fun decks_fromJSON :: "store \<Rightarrow> card_json list list \<Rightarrow> error + (elem list list \<times> store)" where
  "decks_fromJSON s [] = Inr ([], s)"
| "decks_fromJSON s (j # js) =
     (case deck_fromJSON s j of
        Inl e \<Rightarrow> Inl e
      | Inr (d, s') \<Rightarrow>
         (case decks_fromJSON s' js of
            Inl e \<Rightarrow> Inl e
          | Inr (ds, s'') \<Rightarrow> Inr (d # ds, s'')))"

fun players_fromJSON :: "store \<Rightarrow> player_json list \<Rightarrow> error + (pref list \<times> store)" where
  "players_fromJSON s [] = Inr ([], s)"
| "players_fromJSON s (j # js) =
     (case player_fromJSON s j of
        Inl e \<Rightarrow> Inl e
      | Inr (p, s') \<Rightarrow>
         (case players_fromJSON s' js of
            Inl e \<Rightarrow> Inl e
          | Inr (ps, s'') \<Rightarrow> Inr (p # ps, s'')))"

definition invalidText :: "string \<Rightarrow> string" where
  "invalidText what =
     ''Invalid JSON: '' @ what
     @ ''. You can only import a game that was exported or you did something wrong.''"

text \<open>\<^verbatim>\<open>Game.fromJSON(json, config)\<close>. \<open>dflt\<close> is \<^verbatim>\<open>new Config()\<close>, used when no \<^verbatim>\<open>Config\<close> is
  given. An entry of \<^verbatim>\<open>json.initPlayers\<close> that is no string is a plain object, which is no
  \<^verbatim>\<open>Player\<close> instance for the constructor (\<open>Null\<close> stands for it).\<close>

definition fromJSON ::
  "config \<Rightarrow> store \<Rightarrow> game_json option \<Rightarrow> config option \<Rightarrow> error + (store \<times> game)" where
  "fromJSON dflt s json cfg =
     (case json of
        None \<Rightarrow> Inl (Error (invalidText ''No JSON provided''))
      | Some j \<Rightarrow>
         (case j_initPlayers j of
            None \<Rightarrow> Inl (Error (invalidText ''No initPlayers''))
          | Some ips \<Rightarrow>
             (case j_decks j of
                None \<Rightarrow> Inl (Error (invalidText ''No decks''))
              | Some jdecks \<Rightarrow>
                 (case j_players j of
                    None \<Rightarrow> Inl (Error (invalidText ''No players''))
                  | Some jplayers \<Rightarrow>
                     (case j_discardedCards j of
                        None \<Rightarrow> Inl (Error (invalidText ''No discardedCards''))
                      | Some jdisc \<Rightarrow>
                         (case Game (map (\<lambda>x. case x of Str n \<Rightarrow> Str n | _ \<Rightarrow> Null) ips)
                                    (case cfg of Some c \<Rightarrow> c | None \<Rightarrow> dflt) of
                            Inl e \<Rightarrow> Inl e
                          | Inr g0 \<Rightarrow>
                             (let g1 = g0\<lparr>rotation := j_rotation j,
                                         currentPlayer := j_currentPlayer j\<rparr>
                              in case decks_fromJSON s jdecks of
                                   Inl e \<Rightarrow> Inl e
                                 | Inr (ds, s1) \<Rightarrow>
                                    (case players_fromJSON s1 jplayers of
                                       Inl e \<Rightarrow> Inl e
                                     | Inr (ps, s2) \<Rightarrow>
                                        (case deck_fromJSON s2 jdisc of
                                           Inl e \<Rightarrow> Inl e
                                         | Inr (dc, s3) \<Rightarrow>
                                             Inr (s3, g1\<lparr>decks := ds, players := ps,
                                                         discardedCards := dc,
                                                         state := j_state j\<rparr>))))))))))"

section \<open>Predicates the properties are stated with\<close>

text \<open>An entry that is a \<^verbatim>\<open>Card\<close> whose colour is a \<^verbatim>\<open>Color\<close>, as every card is that the
  constructor or \<^verbatim>\<open>Card.fromJSON\<close> made and no play has recoloured.\<close>

definition is_card :: "cheap \<Rightarrow> elem \<Rightarrow> bool" where
  "is_card h e =
     (case e of
        None \<Rightarrow> False
      | Some r \<Rightarrow> (case color (h r) of Obj c \<Rightarrow> True | _ \<Rightarrow> False))"

text \<open>The entry \<open>c\<close> is the object \<open>crd\<close> itself, or a card of the same colour and value.\<close>

definition alike :: "cheap \<Rightarrow> elem \<Rightarrow> elem \<Rightarrow> bool" where
  "alike h crd c =
     (c = crd \<or>
      (case (c, crd) of
         (Some r, Some q) \<Rightarrow> color (h r) = color (h q) \<and> val (h r) = val (h q)
       | _ \<Rightarrow> False))"

text \<open>The exception a call ended with, if any.\<close>

definition thrown :: "error + 'a \<Rightarrow> error option" where
  "thrown r = (case r of Inl e \<Rightarrow> Some e | Inr x \<Rightarrow> None)"

text \<open>The entries of all draw decks together, and the cards (the entries that are not
  \<^verbatim>\<open>null\<close>) of a deck, of all draw decks, of all hands and of the whole table.\<close>

definition decks_length :: "elem list list \<Rightarrow> nat" where
  "decks_length ds = sum_list (map length ds)"

definition ncards :: "elem list \<Rightarrow> nat" where
  "ncards xs = length (filter (\<lambda>e. e \<noteq> None) xs)"

definition total_cards :: "store \<Rightarrow> game \<Rightarrow> nat" where
  "total_cards s g =
     sum_list (map ncards (decks g))
     + sum_list (map (\<lambda>p. ncards (hand_of s p)) (players g))
     + ncards (discardedCards g)"

text \<open>Two stores that differ at most in the hand of the player \<open>p\<close> and in the position
  of the random source.\<close>

definition same_but_hand :: "pref \<Rightarrow> store \<Rightarrow> store \<Rightarrow> bool" where
  "same_but_hand p s s' \<longleftrightarrow>
     cards_of s' = cards_of s \<and> next_card s' = next_card s \<and> next_player s' = next_player s
     \<and> rand_src s' = rand_src s
     \<and> (\<forall>q. q \<noteq> p \<longrightarrow> players_of s' q = players_of s q)
     \<and> pname (players_of s' p) = pname (players_of s p)
     \<and> pid (players_of s' p) = pid (players_of s p)"

text \<open>Two card heaps whose cards have the same colour, value and wild flag (they may
  differ in the picked colours).\<close>

definition same_cards :: "cheap \<Rightarrow> cheap \<Rightarrow> bool" where
  "same_cards h h' \<longleftrightarrow>
     (\<forall>r. color (h' r) = color (h r) \<and> val (h' r) = val (h r) \<and> wild (h' r) = wild (h r))"

section \<open>Concrete objects and games\<close>

text \<open>A store holding the given cards at the references \<open>0, 1, \<dots>\<close> and the given hands
  for the players \<open>0, 1, \<dots>\<close>; its random source always answers \<open>r\<close>.\<close>

definition mk_store :: "card list \<Rightarrow> elem list list \<Rightarrow> nat \<Rightarrow> store" where
  "mk_store cs hands r =
     \<lparr>cards_of = (\<lambda>i. if i < length cs then cs ! i else new_Card RED ZERO False),
      next_card = length cs,
      players_of = (\<lambda>p. \<lparr>pname = [], hand = (if p < length hands then hands ! p else []),
                           pid = int p\<rparr>),
      next_player = length hands,
      rand_src = (\<lambda>n. r), rand_pos = 0\<rparr>"

definition mk_config :: "int \<Rightarrow> int \<Rightarrow> bool \<Rightarrow> config" where
  "mk_config ppd ic stack =
     \<lparr>defaultRotation = ''CW'', playersPerDeck = ppd, initialCards = ic, stackCards = stack\<rparr>"

text \<open>A running two-player game on such a store: player \<open>0\<close> is to move.\<close>

definition mk_game :: "bool \<Rightarrow> gstate \<Rightarrow> int \<Rightarrow> elem list \<Rightarrow> elem list list \<Rightarrow> game" where
  "mk_game stack st amount discarded ds =
     \<lparr>config = mk_config 4 7 stack, initPlayers = [Str ''A'', Str ''B''], rotation = ''CW'',
      currentPlayer = Obj 0, state = st, stackDrawAmount = amount,
      discardedCards = discarded, decks = ds, players = [0, 1], eventLog = []\<rparr>"





text \<open>A two-player game with nothing dealt.\<close>

definition bare_store :: store where
  "bare_store = mk_store [] [[], []] 0"

definition bare_game :: game where
  "bare_game = mk_game False PLAYING 0 [] []"

text \<open>The stacking scenario: player \<open>0\<close> (A) holds a red \<^verbatim>\<open>DRAW_TWO\<close> (card \<open>0\<close>) and a green
  three, player \<open>1\<close> (B) a blue \<^verbatim>\<open>DRAW_TWO\<close> (card \<open>1\<close>) and a yellow one; a red five is on the
  discard pile and five cards are in the draw deck. Stacking is enabled and A is to
  move.\<close>

definition stack_store :: store where
  "stack_store =
     mk_store [new_Card RED DRAW_TWO False, new_Card BLUE DRAW_TWO False,
               new_Card RED FIVE False, new_Card GREEN THREE False,
               new_Card YELLOW ONE False, new_Card GREEN ONE False,
               new_Card GREEN TWO False, new_Card GREEN FOUR False,
               new_Card GREEN SIX False, new_Card GREEN SEVEN False]
              [[Some 0, Some 3], [Some 1, Some 4]] 0"

definition stack_game :: game where
  "stack_game = mk_game True PLAYING 0 [Some 2] [[Some 5, Some 6, Some 7, Some 8, Some 9]]"

section \<open>Searching an array\<close>

lemma find_first_Some:
  "find_first P xs = Inr (Some i) \<Longrightarrow>
     i < length xs \<and> P (xs ! i) = Inr True \<and> (\<forall>j<i. P (xs ! j) = Inr False)"
proof (induction xs arbitrary: i)
  case Nil
  then show ?case by simp
next
  case (Cons x xs)
  show ?case
  proof (cases "P x")
    case (Inl e)
    with Cons.prems show ?thesis by simp
  next
    case (Inr b)
    show ?thesis
    proof (cases b)
      case True
      with Inr Cons.prems show ?thesis by simp
    next
      case False
      with Inr Cons.prems obtain k where k: "find_first P xs = Inr (Some k)" "i = Suc k"
        by (auto split: sum.splits option.splits)
      from Cons.IH[OF k(1)] Inr False k(2) show ?thesis
        by (auto simp: nth_Cons less_Suc_eq_0_disj split: nat.splits)
    qed
  qed
qed

lemma find_first_None:
  "find_first P xs = Inr None \<Longrightarrow> \<forall>x\<in>set xs. P x = Inr False"
  by (induction xs) (auto split: sum.splits option.splits bool.splits if_splits)

lemma find_first_total:
  "\<forall>x\<in>set xs. \<exists>b. P x = Inr b \<Longrightarrow> \<exists>r. find_first P xs = Inr r"
  by (induction xs) (auto split: sum.splits option.splits bool.splits)

section \<open>Card.isValidOn\<close>

text \<open>
  C7. While stacking, \<^verbatim>\<open>c.isValidOn(t, toPlay, true)\<close> on a top card \<open>t\<close> returns true exactly
  when the value of \<open>c\<close> is \<^verbatim>\<open>DRAW_TWO\<close> or \<^verbatim>\<open>WILD_DRAW_FOUR\<close> and \<open>t\<close> has the same value, for
  either \<^verbatim>\<open>toPlay\<close>; so a \<^verbatim>\<open>WILD_DRAW_FOUR\<close> is invalid on a \<^verbatim>\<open>DRAW_TWO\<close>, and every card of
  another value is invalid.
\<close>

theorem isValidOn_stacking:
  "isValidOn c (Some t) toPlay True
     = Inr ((val c = DRAW_TWO \<or> val c = WILD_DRAW_FOUR) \<and> val t = val c)"
  by (auto simp: isValidOn_def)

text \<open>
  C8, as stated, fails on a wild top card: a wild card whose picked colour is still
  \<^verbatim>\<open>BLACK\<close> is not valid to display on another wild card, since the test "a wild card is
  never valid on a wild card" comes before the test for \<^verbatim>\<open>toPlay\<close>.
\<close>

theorem wild_black_on_wild_counterexample:
  "wild (new_Card BLACK WILD False) \<and> wildPickedColor (new_Card BLACK WILD False) = Obj BLACK
   \<and> isValidOn (new_Card BLACK WILD False) (Some (new_Card BLACK WILD_DRAW_FOUR False)) False False
       = Inr False"
  by (simp add: isValidOn_def new_Card_def color_isWild_def value_isWild_def)

text \<open>
  C8, amended. For a wild card \<open>c\<close> whose \<^verbatim>\<open>wildPickedColor\<close> is still \<^verbatim>\<open>BLACK\<close> and every top
  card \<open>t\<close>: \<^verbatim>\<open>c.isValidOn(t, true, false)\<close> is false, and \<^verbatim>\<open>c.isValidOn(t, false, false)\<close> is
  true exactly when \<open>t\<close> is not wild.
\<close>

theorem wild_black_commit_display:
  assumes "wild c" and "wildPickedColor c = Obj BLACK"
  shows "isValidOn c (Some t) True False = Inr False
         \<and> isValidOn c (Some t) False False = Inr (\<not> wild t)"
  using assms by (simp add: isValidOn_def)

theorem wild_black_commit_display_witness:
  "wild (new_Card BLACK WILD False) \<and> wildPickedColor (new_Card BLACK WILD False) = Obj BLACK
   \<and> isValidOn (new_Card BLACK WILD False) (Some (new_Card RED FIVE False)) True False = Inr False
   \<and> isValidOn (new_Card BLACK WILD False) (Some (new_Card RED FIVE False)) False False = Inr True"
proof -
  have w: "wild (new_Card BLACK WILD False)"
    by (simp add: new_Card_def color_isWild_def value_isWild_def)
  have b: "wildPickedColor (new_Card BLACK WILD False) = Obj BLACK"
    by (simp add: new_Card_def color_isWild_def value_isWild_def)
  have n: "\<not> wild (new_Card RED FIVE False)"
    by (simp add: new_Card_def color_isWild_def value_isWild_def)
  from wild_black_commit_display[OF w b, of "new_Card RED FIVE False"] w b n
  show ?thesis by simp
qed

section \<open>Deck.removeCard\<close>

lemma removeCard_matches_alike:
  "is_card h crd \<Longrightarrow> is_card h c \<Longrightarrow> removeCard_matches h crd c = Inr (alike h crd c)"
  by (auto simp: is_card_def removeCard_matches_def alike_def elem_color_def elem_value_def
           split: option.splits jsval.splits)

lemma removeCard_alike:
  assumes cards: "list_all (is_card h) cards" and crd: "is_card h crd"
  shows "(\<exists>i<length cards. alike h crd (cards ! i) \<and> (\<forall>j<i. \<not> alike h crd (cards ! j))
            \<and> removeCard h cards crd = Inr (True, take i cards @ drop (Suc i) cards))
         \<or> ((\<forall>c\<in>set cards. \<not> alike h crd c) \<and> removeCard h cards crd = Inr (False, cards))"
proof -
  have m: "\<And>c. c \<in> set cards \<Longrightarrow> removeCard_matches h crd c = Inr (alike h crd c)"
    using cards crd by (simp add: removeCard_matches_alike list_all_iff)
  then have "\<forall>c\<in>set cards. \<exists>b. removeCard_matches h crd c = Inr b" by blast
  then obtain r where r: "find_first (removeCard_matches h crd) cards = Inr r"
    using find_first_total by blast
  show ?thesis
  proof (cases r)
    case None
    with r have "\<forall>c\<in>set cards. removeCard_matches h crd c = Inr False"
      using find_first_None by blast
    with m have "\<forall>c\<in>set cards. \<not> alike h crd c" by fastforce
    moreover from r None have "removeCard h cards crd = Inr (False, cards)"
      by (simp add: removeCard_def)
    ultimately show ?thesis by blast
  next
    case (Some i)
    with r find_first_Some[of "removeCard_matches h crd" cards i]
    have i: "i < length cards" "removeCard_matches h crd (cards ! i) = Inr True"
      "\<forall>j<i. removeCard_matches h crd (cards ! j) = Inr False" by auto
    from i(1,2) m have "alike h crd (cards ! i)" by fastforce
    moreover have "\<forall>j<i. \<not> alike h crd (cards ! j)"
    proof (intro allI impI)
      fix j assume "j < i"
      with i(1,3) m[of "cards ! j"] show "\<not> alike h crd (cards ! j)" by fastforce
    qed
    moreover from r Some have
      "removeCard h cards crd = Inr (True, take i cards @ drop (Suc i) cards)"
      by (simp add: removeCard_def)
    ultimately show ?thesis using i(1) by blast
  qed
qed




section \<open>Evaluating the concrete objects\<close>


lemmas game_eval =
  bare_game_def bare_store_def mk_game_def mk_store_def mk_config_def

section \<open>Deck.getCard and the picked colour\<close>





section \<open>Game.draw with a count below one\<close>

text \<open>
  C3, as stated, fails: a draw of zero cards does not return false, it throws.
\<close>

theorem draw_nonpositive_counterexample:
  "thrown (draw bare_store bare_game (Obj 0) 0 True False False False)
     = Some (Error ''Cards must be a positive integer'')"
  by code_simp

text \<open>
  C3, amended. For every player \<open>p\<close>, \<^verbatim>\<open>draw(p, n)\<close> with a count \<open>n\<close> below one throws the
  error "Cards must be a positive integer", whoever is to move and whatever the flags.
\<close>

theorem draw_nonpositive_throws:
  "n < 1 \<Longrightarrow>
     draw s g (Obj p) n isNext silent nextSilent force
       = Inl (Error ''Cards must be a positive integer'')"
  by (simp add: draw_def)

theorem draw_nonpositive_throws_witness:
  "(- 3 :: int) < 1
   \<and> draw bare_store bare_game (Obj 1) (- 3) True False False True
       = Inl (Error ''Cards must be a positive integer'')"
proof -
  have h: "(- 3 :: int) < 1" by simp
  from draw_nonpositive_throws[OF h] h show ?thesis by simp
qed

section \<open>Game.getNextPlayer\<close>

lemma indexOf_notin: "x \<notin> set xs \<Longrightarrow> indexOf xs x = - 1"
  by (induction xs) (auto simp: Let_def)

lemma getNextPlayer_effective:
  "getNextPlayer s g rotArg curArg
     = getNextPlayer s g (Some (case rotArg of None \<Rightarrow> rotation g | Some r \<Rightarrow> r))
         (if curArg = Undefined then currentPlayer g else curArg)"
  by (simp add: getNextPlayer_def)

lemma getNextPlayer_outsider:
  assumes "rot = ''CW'' \<or> rot = ''CCW''" and "p \<notin> set (players g)"
  shows "getNextPlayer s g (Some rot) (Obj p)
          = Inr (if players g = [] then Undefined
                 else if rot = ''CW'' then Obj (players g ! 0)
                 else Obj (players g ! (length (players g) - 2)), s)"
proof -
  from assms have i: "indexOf (players g) p = - 1" by (simp add: indexOf_notin)
  show ?thesis
  proof (cases "players g")
    case Nil
    with assms i show ?thesis
      by (auto simp: getNextPlayer_def Let_def js_rem_def js_nth_def)
  next
    case (Cons a as)
    show ?thesis
    proof (cases as)
      case Nil
      with Cons assms i show ?thesis
        by (auto simp: getNextPlayer_def Let_def js_rem_def js_nth_def)
    next
      case (Cons b bs)
      with \<open>players g = a # as\<close> assms i show ?thesis
        by (auto simp: getNextPlayer_def Let_def js_rem_def js_nth_def nat_add_distrib)
    qed
  qed
qed

text \<open>
  C5, as stated, fails: for a \<^verbatim>\<open>Player\<close> that is not in the game's list the call returns
  a player of the game.
\<close>

theorem getNextPlayer_unknown_player_counterexample:
  "7 \<notin> set (players bare_game)
   \<and> (case getNextPlayer bare_store bare_game (Some ''CW'') (Obj 7) of
        Inl e \<Rightarrow> False
      | Inr (np, s) \<Rightarrow> np = Obj 0)"
  by code_simp

text \<open>
  C5, amended. With \<open>rot\<close> and \<open>cur\<close> the rotation and the current player the call works
  on (the arguments, or the game's fields where an argument is left out), \<^verbatim>\<open>getNextPlayer\<close>
  throws when \<open>rot\<close> is neither \<^verbatim>\<open>'CW'\<close> nor \<^verbatim>\<open>'CCW'\<close>, and throws when \<open>cur\<close> is neither
  \<^verbatim>\<open>null\<close> nor a \<^verbatim>\<open>Player\<close>. For a \<^verbatim>\<open>Player\<close> that is not in the list of players it does
  not throw: it returns the first player under \<^verbatim>\<open>'CW'\<close>, the last but one (the only one,
  when there is one) under \<^verbatim>\<open>'CCW'\<close>, and \<^verbatim>\<open>undefined\<close> when the list is empty.
\<close>

theorem getNextPlayer_failures:
  assumes rot: "rot = (case rotArg of None \<Rightarrow> rotation g | Some r \<Rightarrow> r)"
    and cur: "cur = (if curArg = Undefined then currentPlayer g else curArg)"
  shows "(rot \<noteq> ''CW'' \<and> rot \<noteq> ''CCW''
            \<longrightarrow> getNextPlayer s g rotArg curArg
                  = Inl (Error ''Invalid rotation. It must be 'CW' or 'CCW'.''))
       \<and> ((rot = ''CW'' \<or> rot = ''CCW'') \<and> cur \<noteq> Null \<and> (\<forall>p. cur \<noteq> Obj p)
            \<longrightarrow> getNextPlayer s g rotArg curArg
                  = Inl (Error ''CurrentPlayer must be an instance of Player or null.''))
       \<and> ((rot = ''CW'' \<or> rot = ''CCW'') \<and> cur = Obj p \<and> p \<notin> set (players g)
            \<longrightarrow> getNextPlayer s g rotArg curArg
                  = Inr (if players g = [] then Undefined
                         else if rot = ''CW'' then Obj (players g ! 0)
                         else Obj (players g ! (length (players g) - 2)), s))"
proof -
  have e: "getNextPlayer s g rotArg curArg = getNextPlayer s g (Some rot) cur"
    using getNextPlayer_effective[of s g rotArg curArg] rot cur by simp
  have 1: "getNextPlayer s g (Some rot) cur
             = Inl (Error ''Invalid rotation. It must be 'CW' or 'CCW'.'')"
    if "rot \<noteq> ''CW'' \<and> rot \<noteq> ''CCW''"
    using that by (simp add: getNextPlayer_def Let_def)
  have 2: "getNextPlayer s g (Some rot) cur
          = Inl (Error ''CurrentPlayer must be an instance of Player or null.'')"
    if "(rot = ''CW'' \<or> rot = ''CCW'') \<and> cur \<noteq> Null \<and> (\<forall>p. cur \<noteq> Obj p)"
  proof (cases cur)
    case Undefined
    with that cur have "currentPlayer g = Undefined" by (auto split: if_splits)
    with that Undefined show ?thesis by (auto simp: getNextPlayer_def Let_def)
  next
    case Null
    with that show ?thesis by simp
  next
    case (Str x)
    with that show ?thesis by (auto simp: getNextPlayer_def Let_def)
  next
    case (Obj q)
    with that show ?thesis by simp
  qed
  from e 1 2 getNextPlayer_outsider[of rot p g s] show ?thesis by auto
qed

theorem getNextPlayer_failures_witness:
  "getNextPlayer bare_store bare_game (Some ''clockwise'') (Obj 0)
     = Inl (Error ''Invalid rotation. It must be 'CW' or 'CCW'.'')
   \<and> getNextPlayer bare_store bare_game None (Str ''A'')
     = Inl (Error ''CurrentPlayer must be an instance of Player or null.'')
   \<and> 7 \<notin> set (players bare_game)
   \<and> getNextPlayer bare_store bare_game (Some ''CCW'') (Obj 7) = Inr (Obj 0, bare_store)"
proof -
  have p: "players bare_game = [0, 1]" "rotation bare_game = ''CW''"
    by (simp_all add: game_eval)
  have a: "''clockwise'' = (case Some ''clockwise'' of None \<Rightarrow> rotation bare_game | Some r \<Rightarrow> r)"
    by simp
  have b: "Obj 0 = (if Obj (0::nat) = Undefined then currentPlayer bare_game else Obj 0)"
    by simp
  have c: "''CW'' = (case None of None \<Rightarrow> rotation bare_game | Some r \<Rightarrow> r)"
    using p by simp
  have d: "Str ''A'' = (if Str ''A'' = Undefined then currentPlayer bare_game else Str ''A'')"
    by simp
  have e: "''CCW'' = (case Some ''CCW'' of None \<Rightarrow> rotation bare_game | Some r \<Rightarrow> r)"
    by simp
  have f: "Obj 7 = (if Obj (7::nat) = Undefined then currentPlayer bare_game else Obj 7)"
    by simp
  from getNextPlayer_failures[OF a b, where s = bare_store]
  have 1: "getNextPlayer bare_store bare_game (Some ''clockwise'') (Obj 0)
             = Inl (Error ''Invalid rotation. It must be 'CW' or 'CCW'.'')" by simp
  from getNextPlayer_failures[OF c d, where s = bare_store]
  have 2: "getNextPlayer bare_store bare_game None (Str ''A'')
             = Inl (Error ''CurrentPlayer must be an instance of Player or null.'')" by simp
  from getNextPlayer_failures[OF e f, where s = bare_store and p = 7] p
  have 3: "getNextPlayer bare_store bare_game (Some ''CCW'') (Obj 7) = Inr (Obj 0, bare_store)"
    by simp
  from 1 2 3 p show ?thesis by simp
qed


section \<open>Drawing from the decks\<close>

lemma first_nonempty_None: "first_nonempty ds = None \<longleftrightarrow> (\<forall>d\<in>set ds. d = [])"
  by (induction ds) (auto split: option.splits)

lemma first_nonempty_Some:
  "first_nonempty ds = Some k \<Longrightarrow> k < length ds \<and> ds ! k \<noteq> []"
  by (induction ds arbitrary: k) (auto split: option.splits if_splits)

lemma decks_length_empty: "(\<forall>d\<in>set ds. d = []) \<Longrightarrow> decks_length ds = 0"
  unfolding decks_length_def by (induction ds) auto

lemma decks_length_pos: "0 < decks_length ds \<Longrightarrow> \<exists>k. first_nonempty ds = Some k"
  by (cases "first_nonempty ds") (auto simp: first_nonempty_None decks_length_empty)

lemma decks_length_update:
  "k < length ds \<Longrightarrow> ds ! k = e # rest \<Longrightarrow> decks_length ds = Suc (decks_length (ds[k := rest]))"
  unfolding decks_length_def
  by (induction ds arbitrary: k) (auto simp: nth_Cons split: nat.splits)

lemma same_but_hand_refl: "same_but_hand p s s"
  by (simp add: same_but_hand_def)

lemma same_but_hand_trans:
  "same_but_hand p s s1 \<Longrightarrow> same_but_hand p s1 s2 \<Longrightarrow> same_but_hand p s s2"
  by (simp add: same_but_hand_def)

lemma same_but_hand_set_hand: "same_but_hand p s (set_hand s p h)"
  by (simp add: same_but_hand_def set_hand_def)

lemma draw_loop_enough:
  assumes "draw_loop s g k p cards i drawn = (s', g', drawn')"
    and "i \<le> cards" and "cards - i \<le> int (decks_length (decks g))"
  shows "same_but_hand p s s' \<and> rand_pos s' = rand_pos s
         \<and> g' = g\<lparr>decks := decks g'\<rparr>
         \<and> length (decks g') = length (decks g)
         \<and> int (decks_length (decks g')) = int (decks_length (decks g)) - (cards - i)
         \<and> int (length drawn') = int (length drawn) + (cards - i)
         \<and> int (length (hand_of s' p)) = int (length (hand_of s p)) + (cards - i)"
  using assms
proof (induction s g k p cards i drawn arbitrary: s' g' drawn' rule: draw_loop.induct)
  case (1 s g k p cards i drawn)
  show ?case
  proof (cases "i < cards")
    case False
    with "1.prems" show ?thesis
      by (simp add: draw_loop.simps same_but_hand_refl)
  next
    case more: True
    show ?thesis
    proof (cases "deck_at g k")
      case Nil
      from more "1.prems"(3) have "0 < decks_length (decks g)" by simp
      then obtain k' where k': "first_nonempty (decks g) = Some k'"
        using decks_length_pos by blast
      then have gd: "getDeck s g = (k', s, g)" by (simp add: getDeck_def)
      from first_nonempty_Some[OF k'] have ne: "length (deck_at g k') \<noteq> 0"
        by (simp add: deck_at_def)
      from "1.prems"(1) more Nil gd ne
      have r: "draw_loop s g k' p cards (i - 1 + 1) drawn = (s', g', drawn')"
        by (subst (asm) draw_loop.simps) simp
      have em: "\<not> 0 < length (deck_at g k)" using Nil by simp
      from "1.IH"(2)[OF more em gd[symmetric] refl ne r] "1.prems"(2,3)
      show ?thesis by simp
    next
      case (Cons e rest)
      then have kl: "k < length (decks g)" "decks g ! k = e # rest"
        by (auto simp: deck_at_def split: if_splits)
      let ?s1 = "set_hand s p (addCard (hand_of s p) e)"
      let ?g1 = "g\<lparr>decks := (decks g)[k := rest]\<rparr>"
      from "1.prems"(1) more Cons
      have r: "draw_loop ?s1 ?g1 k p cards (i + 1) (drawn @ [e]) = (s', g', drawn')"
        by (subst (asm) draw_loop.simps) (simp add: getTopCard_def)
      have dl: "decks_length (decks g) = Suc (decks_length (decks ?g1))"
        using decks_length_update[OF kl] by simp
      have pos: "0 < length (deck_at g k)" using Cons by simp
      have pre: "i + 1 \<le> cards" "cards - (i + 1) \<le> int (decks_length (decks ?g1))"
        using more "1.prems"(3) dl by simp_all
      have gt: "getTopCard (deck_at g k) True = (Some e, rest)"
        using Cons by (simp add: getTopCard_def)
      from "1.IH"(1)[OF more pos gt[symmetric] refl r pre]
      have ih: "same_but_hand p ?s1 s'" "rand_pos s' = rand_pos ?s1"
        "g' = ?g1\<lparr>decks := decks g'\<rparr>" "length (decks g') = length (decks ?g1)"
        "int (decks_length (decks g')) = int (decks_length (decks ?g1)) - (cards - (i + 1))"
        "int (length drawn') = int (length (drawn @ [e])) + (cards - (i + 1))"
        "int (length (hand_of s' p)) = int (length (hand_of ?s1 p)) + (cards - (i + 1))"
        by simp_all
      have "same_but_hand p s s'"
        using same_but_hand_trans[OF same_but_hand_set_hand ih(1)] .
      moreover have "rand_pos s' = rand_pos s" using ih(2) by (simp add: set_hand_def)
      moreover have "g' = g\<lparr>decks := decks g'\<rparr>" using ih(3) by (cases g, cases g') simp
      moreover have "length (decks g') = length (decks g)" using ih(4) by simp
      moreover have "int (decks_length (decks g')) = int (decks_length (decks g)) - (cards - i)"
        using ih(5) dl by simp
      moreover have "int (length drawn') = int (length drawn) + (cards - i)"
        using ih(6) by simp
      moreover have "int (length (hand_of s' p)) = int (length (hand_of s p)) + (cards - i)"
        using ih(7) by (simp add: hand_of_def set_hand_def addCard_def)
      ultimately show ?thesis by simp
    qed
  qed
qed

section \<open>Playing a draw-two with stacking\<close>

lemma same_cards_refl: "same_cards h h"
  by (simp add: same_cards_def)

lemma same_cards_is_card: "same_cards h h' \<Longrightarrow> is_card h' e = is_card h e"
  by (simp add: same_cards_def is_card_def split: option.splits)

lemma new_Value_name: "new_Value (value_name v) = Inr v"
  by (cases v) (simp_all add: value_name_def new_Value_def value_names_def)

lemma new_Color_name: "new_Color (color_name c) = Inr c"
  by (cases c) (simp_all add: color_name_def new_Color_def color_names_def)

lemma getCard_matches_by_value:
  "getCard_matches h w Undefined (Obj v) (Some r) = Inr (val (h r) = v)"
  by (simp add: getCard_matches_def elem_value_def)

lemma getCard_by_value:
  assumes "None \<notin> set cards"
  shows "(\<exists>r h'. getCard h cards Undefined (Str (value_name v)) = Inr (Some r, h')
            \<and> Some r \<in> set cards \<and> val (h r) = v \<and> same_cards h h')
         \<or> (getCard h cards Undefined (Str (value_name v)) = Inr (None, h)
            \<and> (\<forall>r. Some r \<in> set cards \<longrightarrow> val (h r) \<noteq> v))"
proof -
  let ?P = "getCard_matches h (value_isWild v) Undefined (Obj v)"
  have m: "?P e = Inr (\<exists>r. e = Some r \<and> val (h r) = v)" if "e \<in> set cards" for e
  proof (cases e)
    case None
    with that assms show ?thesis by simp
  next
    case (Some r)
    then show ?thesis by (simp add: getCard_matches_by_value)
  qed
  then have "\<forall>e\<in>set cards. \<exists>b. ?P e = Inr b" by blast
  then obtain res where res: "find_first ?P cards = Inr res"
    using find_first_total by blast
  show ?thesis
  proof (cases res)
    case None
    from find_first_None[OF res[unfolded None]] m
    have "\<forall>r. Some r \<in> set cards \<longrightarrow> val (h r) \<noteq> v" by fastforce
    moreover from res None have "getCard h cards Undefined (Str (value_name v)) = Inr (None, h)"
      by (simp add: getCard_def new_Value_name Let_def)
    ultimately show ?thesis by blast
  next
    case (Some i)
    from find_first_Some[OF res[unfolded Some]]
    have i: "i < length cards" "?P (cards ! i) = Inr True" by auto
    from i m[of "cards ! i"] obtain r where r: "cards ! i = Some r" "val (h r) = v" by auto
    from i(1) r(1) have mem: "Some r \<in> set cards" by (metis nth_mem)
    let ?h' = "if wild (h r) then h(r := (h r)\<lparr>wildPickedColor := Undefined\<rparr>) else h"
    from res Some r have "getCard h cards Undefined (Str (value_name v)) = Inr (Some r, ?h')"
      by (simp add: getCard_def new_Value_name Let_def)
    moreover have "same_cards h ?h'" by (simp add: same_cards_def)
    ultimately show ?thesis using mem r(2) by blast
  qed
qed

lemma next_two:
  assumes "length (players g) = 2" and "set (players g) = {x, y}" and "x \<noteq> y"
    and "rotation g = ''CW'' \<or> rotation g = ''CCW''" and "currentPlayer g = Obj x"
  shows "getNextPlayer s g None Undefined = Inr (Obj y, s)"
proof -
  from assms(1) obtain u v where uv: "players g = [u, v]"
    by (cases "players g"; cases "tl (players g)") auto
  with assms(2,3) have "(u = x \<and> v = y) \<or> (u = y \<and> v = x)"
    by (auto simp: doubleton_eq_iff)
  with uv assms(3,4,5) show ?thesis
    by (auto simp: getNextPlayer_def Let_def js_rem_def js_nth_def)
qed

lemma removeCard_member:
  assumes "list_all (is_card h) cards" and "Some c \<in> set cards"
  shows "\<exists>i<length cards. removeCard h cards (Some c) = Inr (True, take i cards @ drop (Suc i) cards)"
proof -
  from assms have ic: "is_card h (Some c)" by (auto simp: list_all_iff)
  have "alike h (Some c) (Some c)" by (simp add: alike_def)
  with assms(2) have "\<not> (\<forall>e\<in>set cards. \<not> alike h (Some c) e)" by blast
  with removeCard_alike[OF assms(1) ic] show ?thesis by blast
qed

lemma play_draw_two_stacks:
  assumes two: "length (players g) = 2" "set (players g) = {x, y}" "x \<noteq> y"
    and rot: "rotation g = ''CW'' \<or> rotation g = ''CCW''"
    and cur: "currentPlayer g = Obj x"
    and cfg: "stackCards (config g)"
    and c: "Some c \<in> set (hand_of s x)" "val (cards_of s c) = DRAW_TWO" "\<not> wild (cards_of s c)"
    and valid: "isValidOn (cards_of s c) (topCardOf s (discardedCards g)) True
                  (stackCards (config g) \<and> state g = STACK_DRAW) = Inr True"
    and hx: "list_all (is_card (cards_of s)) (hand_of s x)"
    and hy: "None \<notin> set (hand_of s y)"
    and d: "Some d \<in> set (hand_of s y)" "val (cards_of s d) = DRAW_TWO"
  shows "\<exists>s1 g1. play s g (Obj x) (Obj c) = Inr (True, s1, g1)
           \<and> state g1 = STACK_DRAW \<and> stackDrawAmount g1 = stackDrawAmount g + 2
           \<and> currentPlayer g1 = Obj y \<and> players g1 = players g \<and> config g1 = config g
           \<and> rotation g1 = rotation g \<and> decks g1 = decks g
           \<and> discardedCards g1 = Some c # discardedCards g
           \<and> hand_of s1 y = hand_of s y \<and> same_cards (cards_of s) (cards_of s1)"
proof -
  from getCard_by_value[OF hy, of "cards_of s" DRAW_TWO] d
  obtain r h' where gc: "getCard (cards_of s) (hand_of s y) Undefined (Str (value_name DRAW_TWO))
                           = Inr (Some r, h')"
    and sc: "same_cards (cards_of s) h'"
    by blast
  let ?s1 = "s\<lparr>cards_of := h'\<rparr>"
  let ?g1 = "g\<lparr>stackDrawAmount := stackDrawAmount g + 2, state := STACK_DRAW\<rparr>"
  have np: "getNextPlayer s g None Undefined = Inr (Obj y, s)"
    using next_two[OF two rot cur] .
  have nh: "nextPlayerHolds s g DRAW_TWO = Inr (True, ?s1)"
    using np gc by (simp add: nextPlayerHolds_def)
  have gl: "gameLogic s g x c = Inr (?s1, ?g1)"
    using c(2) cfg nh by (simp add: gameLogic_def drawCase_def)
  have hx1: "list_all (is_card (cards_of ?s1)) (hand_of ?s1 x)"
    using hx sc by (simp add: hand_of_def list_all_iff same_cards_is_card)
  have "Some c \<in> set (hand_of ?s1 x)" using c(1) by (simp add: hand_of_def)
  from removeCard_member[OF hx1 this] obtain i where
    rc: "removeCard (cards_of ?s1) (hand_of ?s1 x) (Some c)
           = Inr (True, take i (hand_of ?s1 x) @ drop (Suc i) (hand_of ?s1 x))" by blast
  let ?hand' = "take i (hand_of ?s1 x) @ drop (Suc i) (hand_of ?s1 x)"
  let ?s3 = "set_hand ?s1 x ?hand'"
  let ?g3 = "?g1\<lparr>discardedCards := addCard (discardedCards ?g1) (Some c)\<rparr>"
  have np3: "getNextPlayer s' ?g3 None Undefined = Inr (Obj y, s')" for s'
    by (rule next_two[of ?g3 x y]) (use two rot cur in simp_all)
  have np4: "getNextPlayer s' (fireEvent ?g3 ev) None Undefined = Inr (Obj y, s')" for s' ev
    by (rule next_two[of "fireEvent ?g3 ev" x y]) (use two rot cur in \<open>simp_all add: fireEvent_def\<close>)
  let ?g5 = "fireEvent ((fireEvent ?g3 (PlayerPlayEvent x c (Obj y)))\<lparr>currentPlayer := Obj y\<rparr>)
               (PlayerChangeEvent (Obj y))"
  have pl: "play s g (Obj x) (Obj c) = Inr (True, ?s3, ?g5)"
    using c(1,3) cur valid gl rc np3 np4
    by (simp add: play_def setNextPlayer_def Let_def)
  have "hand_of ?s3 y = hand_of s y"
    using two(3) by (simp add: hand_of_def set_hand_def)
  moreover have "same_cards (cards_of s) (cards_of ?s3)"
    using sc by (simp add: set_hand_def)
  ultimately show ?thesis
    using pl by (simp add: fireEvent_def addCard_def)
qed

lemma play_draw_two_forced:
  assumes two: "length (players g) = 2" "set (players g) = {x, y}" "x \<noteq> y"
    and rot: "rotation g = ''CW'' \<or> rotation g = ''CCW''"
    and cur: "currentPlayer g = Obj x"
    and cfg: "stackCards (config g)"
    and st: "state g = STACK_DRAW" and amt: "0 \<le> stackDrawAmount g"
    and d: "Some d \<in> set (hand_of s x)" "val (cards_of s d) = DRAW_TWO" "\<not> wild (cards_of s d)"
    and top: "topCardOf s (discardedCards g) = Some t" "val t = DRAW_TWO"
    and hx: "list_all (is_card (cards_of s)) (hand_of s x)"
    and hy: "\<forall>e\<in>set (hand_of s y). \<exists>r. e = Some r \<and> val (cards_of s r) \<noteq> DRAW_TWO"
    and enough: "stackDrawAmount g + 2 \<le> int (decks_length (decks g))"
  shows "\<exists>s2 g2. play s g (Obj x) (Obj d) = Inr (True, s2, g2)
           \<and> state g2 = PLAYING \<and> stackDrawAmount g2 = 0 \<and> currentPlayer g2 = Obj x
           \<and> int (length (hand_of s2 y)) = int (length (hand_of s y)) + stackDrawAmount g + 2"
proof -
  have valid: "isValidOn (cards_of s d) (topCardOf s (discardedCards g)) True
                 (stackCards (config g) \<and> state g = STACK_DRAW) = Inr True"
    using cfg st d(2) top by (simp add: isValidOn_def)
  have ny: "None \<notin> set (hand_of s y)" using hy by auto
  from getCard_by_value[OF ny, of "cards_of s" DRAW_TWO] hy
  have gc: "getCard (cards_of s) (hand_of s y) Undefined (Str (value_name DRAW_TWO))
              = Inr (None, cards_of s)"
    by auto
  have np: "getNextPlayer s g None Undefined = Inr (Obj y, s)"
    using next_two[OF two rot cur] .
  have nh: "nextPlayerHolds s g DRAW_TWO = Inr (False, s)"
    using np gc by (simp add: nextPlayerHolds_def)
  let ?n = "stackDrawAmount g + 2"
  let ?g1 = "g\<lparr>stackDrawAmount := ?n\<rparr>"
  have np1: "getNextPlayer s ?g1 None Undefined = Inr (Obj y, s)"
    by (rule next_two[of ?g1 x y]) (use two rot cur in simp_all)
  from enough amt have "0 < decks_length (decks ?g1)" by simp
  then obtain k where k: "first_nonempty (decks ?g1) = Some k"
    using decks_length_pos by blast
  have gd: "getDeck s ?g1 = (k, s, ?g1)" using k by (simp add: getDeck_def)
  let ?g2 = "?g1\<lparr>stackDrawAmount := 0, state := PLAYING\<rparr>"
  obtain s3 g3 drawn where dl: "draw_loop s ?g2 k y ?n 0 [] = (s3, g3, drawn)"
    by (metis prod_cases3)
  from draw_loop_enough[OF dl] amt enough
  have f: "same_but_hand y s s3" "g3 = ?g2\<lparr>decks := decks g3\<rparr>"
    "int (length drawn) = ?n" "int (length (hand_of s3 y)) = int (length (hand_of s y)) + ?n"
    by simp_all
  let ?g4 = "fireEvent g3 (PlayerDrawEvent y drawn)"
  have g3: "players g3 = players g" "rotation g3 = rotation g" "currentPlayer g3 = currentPlayer g"
    "discardedCards g3 = discardedCards g"
    using arg_cong[OF f(2), of players] arg_cong[OF f(2), of rotation]
      arg_cong[OF f(2), of currentPlayer] arg_cong[OF f(2), of discardedCards] by simp_all
  have g4: "length (players ?g4) = 2" "set (players ?g4) = {x, y}"
    "rotation ?g4 = ''CW'' \<or> rotation ?g4 = ''CCW''" "currentPlayer ?g4 = Obj x"
    using two rot cur g3 by (simp_all add: fireEvent_def)
  have np4: "getNextPlayer s3 ?g4 None Undefined = Inr (Obj y, s3)"
    using next_two[OF g4(1,2) two(3) g4(3,4)] .
  let ?g5 = "?g4\<lparr>currentPlayer := Obj y\<rparr>"
  have dr: "draw s ?g1 (Obj y) ?n True False True True = Inr (True, s3, ?g5)"
    using amt gd st dl f(3) np4 by (simp add: draw_def setNextPlayer_def Let_def)
  let ?g6 = "?g5\<lparr>stackDrawAmount := 0, state := PLAYING\<rparr>"
  have gl: "gameLogic s g x d = Inr (s3, ?g6)"
    using d(2) cfg nh st np1 dr by (simp add: gameLogic_def drawCase_def Let_def)
  have hx3: "hand_of s3 x = hand_of s x" "cards_of s3 = cards_of s"
    using f(1) two(3) by (simp_all add: same_but_hand_def hand_of_def)
  have hx3c: "list_all (is_card (cards_of s3)) (hand_of s3 x)" "Some d \<in> set (hand_of s3 x)"
    using hx d(1) hx3 by simp_all
  from removeCard_member[OF hx3c] obtain i where
    rc: "removeCard (cards_of s3) (hand_of s3 x) (Some d)
           = Inr (True, take i (hand_of s3 x) @ drop (Suc i) (hand_of s3 x))" by blast
  let ?hand' = "take i (hand_of s3 x) @ drop (Suc i) (hand_of s3 x)"
  let ?s7 = "set_hand s3 x ?hand'"
  let ?g7 = "?g6\<lparr>discardedCards := addCard (discardedCards ?g6) (Some d)\<rparr>"
  have g7: "length (players ?g7) = 2" "set (players ?g7) = {y, x}"
    "rotation ?g7 = ''CW'' \<or> rotation ?g7 = ''CCW''" "currentPlayer ?g7 = Obj y"
    using two rot g3 by (auto simp add: fireEvent_def)
  have np7: "getNextPlayer s' ?g7 None Undefined = Inr (Obj x, s')" for s'
    using next_two[OF g7(1,2) two(3)[symmetric] g7(3,4)] .
  have g8: "length (players (fireEvent ?g7 ev)) = 2" "set (players (fireEvent ?g7 ev)) = {y, x}"
    "rotation (fireEvent ?g7 ev) = ''CW'' \<or> rotation (fireEvent ?g7 ev) = ''CCW''"
    "currentPlayer (fireEvent ?g7 ev) = Obj y" for ev
    using g7 by (simp_all add: fireEvent_def)
  have np8: "getNextPlayer s' (fireEvent ?g7 ev) None Undefined = Inr (Obj x, s')" for s' ev
    using next_two[OF g8(1,2) two(3)[symmetric] g8(3,4)] .
  let ?g9 = "fireEvent ((fireEvent ?g7 (PlayerPlayEvent x d (Obj x)))\<lparr>currentPlayer := Obj x\<rparr>)
               (PlayerChangeEvent (Obj x))"
  have pl: "play s g (Obj x) (Obj d) = Inr (True, ?s7, ?g9)"
    using d(1,3) cur valid gl rc np7 np8
    by (simp add: play_def setNextPlayer_def Let_def)
  have "hand_of ?s7 y = hand_of s3 y"
    using two(3) by (simp add: hand_of_def set_hand_def)
  with f(4) have "int (length (hand_of ?s7 y)) = int (length (hand_of s y)) + stackDrawAmount g + 2"
    by simp
  with pl show ?thesis by (simp add: fireEvent_def)
qed

text \<open>
  C2, as stated, fails at its middle step. In the scenario (two players, stacking
  enabled, A plays a \<^verbatim>\<open>DRAW_TWO\<close> while B holds one, then B plays theirs while A holds none)
  the state after A's play is \<^verbatim>\<open>STACK_DRAW\<close> with pending amount 2, but after B's play it is
  \<^verbatim>\<open>PLAYING\<close> with pending amount 0, not \<^verbatim>\<open>STACK_DRAW\<close> with 4: B's play has already made A
  draw the four cards, and the turn is B's, so A has no move to make.
\<close>

theorem stacking_scenario_counterexample:
  "Some 0 \<in> set (hand_of stack_store 0) \<and> val (cards_of stack_store 0) = DRAW_TWO
   \<and> Some 1 \<in> set (hand_of stack_store 1) \<and> val (cards_of stack_store 1) = DRAW_TWO
   \<and> (case play stack_store stack_game (Obj 0) (Obj 0) of
        Inr (True, s1, g1) \<Rightarrow>
          state g1 = STACK_DRAW \<and> stackDrawAmount g1 = 2 \<and> currentPlayer g1 = Obj 1
          \<and> list_all (\<lambda>e. case e of None \<Rightarrow> False | Some r \<Rightarrow> val (cards_of s1 r) \<noteq> DRAW_TWO)
                      (hand_of s1 0)
          \<and> (case play s1 g1 (Obj 1) (Obj 1) of
                Inr (True, s2, g2) \<Rightarrow>
                  state g2 \<noteq> STACK_DRAW \<and> stackDrawAmount g2 \<noteq> 4 \<and> currentPlayer g2 \<noteq> Obj 0
              | _ \<Rightarrow> False)
      | _ \<Rightarrow> False)"
  by code_simp

text \<open>
  C2, amended. In a two-player game with stacking enabled, in state \<^verbatim>\<open>PLAYING\<close> with nothing
  pending, where A is to move and plays a playable \<^verbatim>\<open>DRAW_TWO\<close> while B holds a \<^verbatim>\<open>DRAW_TWO\<close>
  (both hands holding cards only, at least four cards in the draw decks): the play
  succeeds, the state becomes \<^verbatim>\<open>STACK_DRAW\<close> with pending amount 2 and the turn is B's.
  When B then plays a \<^verbatim>\<open>DRAW_TWO\<close> of theirs while A holds no \<^verbatim>\<open>DRAW_TWO\<close>, that play itself
  makes A draw exactly 4 cards: after it the state is \<^verbatim>\<open>PLAYING\<close>, nothing is pending, and
  the turn is B's again.
\<close>

theorem stacking_draw_two_scenario:
  assumes two: "players g = [a, b]" "a \<noteq> b"
    and cfg: "stackCards (config g)"
    and rot: "rotation g = ''CW'' \<or> rotation g = ''CCW''"
    and cur: "currentPlayer g = Obj a"
    and st: "state g = PLAYING" "stackDrawAmount g = 0"
    and c: "Some c \<in> set (hand_of s a)" "val (cards_of s c) = DRAW_TWO" "\<not> wild (cards_of s c)"
    and valid: "isValidOn (cards_of s c) (topCardOf s (discardedCards g)) True False = Inr True"
    and ha: "list_all (is_card (cards_of s)) (hand_of s a)"
    and hb: "list_all (is_card (cards_of s)) (hand_of s b)"
    and holds: "\<exists>d. Some d \<in> set (hand_of s b) \<and> val (cards_of s d) = DRAW_TWO"
    and enough: "4 \<le> decks_length (decks g)"
  shows "\<exists>s1 g1. play s g (Obj a) (Obj c) = Inr (True, s1, g1)
           \<and> state g1 = STACK_DRAW \<and> stackDrawAmount g1 = 2 \<and> currentPlayer g1 = Obj b
           \<and> (\<forall>d. Some d \<in> set (hand_of s1 b) \<and> val (cards_of s1 d) = DRAW_TWO
                    \<and> \<not> wild (cards_of s1 d)
                    \<and> (\<forall>e\<in>set (hand_of s1 a). \<exists>r. e = Some r \<and> val (cards_of s1 r) \<noteq> DRAW_TWO)
                \<longrightarrow> (\<exists>s2 g2. play s1 g1 (Obj b) (Obj d) = Inr (True, s2, g2)
                        \<and> state g2 = PLAYING \<and> stackDrawAmount g2 = 0
                        \<and> currentPlayer g2 = Obj b
                        \<and> length (hand_of s2 a) = length (hand_of s1 a) + 4))"
proof -
  have p2: "length (players g) = 2" "set (players g) = {a, b}" using two by simp_all
  have v: "isValidOn (cards_of s c) (topCardOf s (discardedCards g)) True
             (stackCards (config g) \<and> state g = STACK_DRAW) = Inr True"
    using valid st by simp
  have nb: "None \<notin> set (hand_of s b)"
    using hb by (auto simp: list_all_iff is_card_def)
  from holds obtain d0 where d0: "Some d0 \<in> set (hand_of s b)" "val (cards_of s d0) = DRAW_TWO"
    by blast
  from play_draw_two_stacks[OF p2 two(2) rot cur cfg c v ha nb d0]
  obtain s1 g1 where 1: "play s g (Obj a) (Obj c) = Inr (True, s1, g1)"
    "state g1 = STACK_DRAW" "stackDrawAmount g1 = stackDrawAmount g + 2"
    "currentPlayer g1 = Obj b" "players g1 = players g" "config g1 = config g"
    "rotation g1 = rotation g" "decks g1 = decks g"
    "discardedCards g1 = Some c # discardedCards g"
    "hand_of s1 b = hand_of s b" "same_cards (cards_of s) (cards_of s1)"
    by blast
  have second: "\<exists>s2 g2. play s1 g1 (Obj b) (Obj d) = Inr (True, s2, g2)
                  \<and> state g2 = PLAYING \<and> stackDrawAmount g2 = 0 \<and> currentPlayer g2 = Obj b
                  \<and> length (hand_of s2 a) = length (hand_of s1 a) + 4"
    if h: "Some d \<in> set (hand_of s1 b) \<and> val (cards_of s1 d) = DRAW_TWO
           \<and> \<not> wild (cards_of s1 d)
           \<and> (\<forall>e\<in>set (hand_of s1 a). \<exists>r. e = Some r \<and> val (cards_of s1 r) \<noteq> DRAW_TWO)" for d
  proof -
    have q2: "length (players g1) = 2" "set (players g1) = {b, a}"
      using two 1(5) by auto
    have r1: "rotation g1 = ''CW'' \<or> rotation g1 = ''CCW''" using rot 1(7) by simp
    have c1: "stackCards (config g1)" using cfg 1(6) by simp
    have a1: "0 \<le> stackDrawAmount g1" using 1(3) st by simp
    have top: "topCardOf s1 (discardedCards g1) = Some (cards_of s1 c)"
      "val (cards_of s1 c) = DRAW_TWO"
      using 1(9,11) c(2) by (simp_all add: topCardOf_def getTopCard_def same_cards_def)
    have hb1: "list_all (is_card (cards_of s1)) (hand_of s1 b)"
      using hb 1(10,11) by (simp add: list_all_iff same_cards_is_card)
    have en: "stackDrawAmount g1 + 2 \<le> int (decks_length (decks g1))"
      using enough 1(3,8) st by simp
    from h have d: "Some d \<in> set (hand_of s1 b)" "val (cards_of s1 d) = DRAW_TWO"
      "\<not> wild (cards_of s1 d)"
      and na: "\<forall>e\<in>set (hand_of s1 a). \<exists>r. e = Some r \<and> val (cards_of s1 r) \<noteq> DRAW_TWO"
      by blast+
    from play_draw_two_forced[OF q2 two(2)[symmetric] r1 1(4) c1 1(2) a1 d top hb1 na en]
    obtain s2 g2 where 2: "play s1 g1 (Obj b) (Obj d) = Inr (True, s2, g2)"
      "state g2 = PLAYING" "stackDrawAmount g2 = 0" "currentPlayer g2 = Obj b"
      "int (length (hand_of s2 a)) = int (length (hand_of s1 a)) + stackDrawAmount g1 + 2"
      by blast
    from 2(5) 1(3) st have "length (hand_of s2 a) = length (hand_of s1 a) + 4" by simp
    with 2 show ?thesis by blast
  qed
  from 1(1,2,3,4) st second show ?thesis by auto
qed

theorem stacking_draw_two_scenario_witness:
  "players stack_game = [0, 1] \<and> stackCards (config stack_game)
   \<and> currentPlayer stack_game = Obj 0 \<and> state stack_game = PLAYING
   \<and> stackDrawAmount stack_game = 0
   \<and> Some 0 \<in> set (hand_of stack_store 0) \<and> val (cards_of stack_store 0) = DRAW_TWO
   \<and> Some 1 \<in> set (hand_of stack_store 1) \<and> val (cards_of stack_store 1) = DRAW_TWO
   \<and> 4 \<le> decks_length (decks stack_game)
   \<and> (case play stack_store stack_game (Obj 0) (Obj 0) of
        Inr (True, s1, g1) \<Rightarrow>
          state g1 = STACK_DRAW \<and> stackDrawAmount g1 = 2 \<and> currentPlayer g1 = Obj 1
          \<and> (case play s1 g1 (Obj 1) (Obj 1) of
                Inr (True, s2, g2) \<Rightarrow>
                  state g2 = PLAYING \<and> stackDrawAmount g2 = 0 \<and> currentPlayer g2 = Obj 1
                  \<and> length (hand_of s2 0) = length (hand_of s1 0) + 4
              | _ \<Rightarrow> False)
      | _ \<Rightarrow> False)"
proof -
  have two: "players stack_game = [0, 1]" "(0::nat) \<noteq> 1" by code_simp+
  have cfg: "stackCards (config stack_game)" by code_simp
  have rot: "rotation stack_game = ''CW'' \<or> rotation stack_game = ''CCW''" by code_simp
  have cur: "currentPlayer stack_game = Obj 0" by code_simp
  have st: "state stack_game = PLAYING" "stackDrawAmount stack_game = 0" by code_simp+
  have c: "Some 0 \<in> set (hand_of stack_store 0)" "val (cards_of stack_store 0) = DRAW_TWO"
    "\<not> wild (cards_of stack_store 0)" by code_simp+
  have valid: "isValidOn (cards_of stack_store 0)
                 (topCardOf stack_store (discardedCards stack_game)) True False = Inr True"
    by code_simp
  have ha: "list_all (is_card (cards_of stack_store)) (hand_of stack_store 0)" by code_simp
  have hb: "list_all (is_card (cards_of stack_store)) (hand_of stack_store 1)" by code_simp
  have d: "Some 1 \<in> set (hand_of stack_store 1)" "val (cards_of stack_store 1) = DRAW_TWO"
    by code_simp+
  then have holds: "\<exists>d. Some d \<in> set (hand_of stack_store 1)
                        \<and> val (cards_of stack_store d) = DRAW_TWO" by blast
  have enough: "4 \<le> decks_length (decks stack_game)" by code_simp
  from stacking_draw_two_scenario[OF two cfg rot cur st c valid ha hb holds enough]
  obtain s1 g1 where 1: "play stack_store stack_game (Obj 0) (Obj 0) = Inr (True, s1, g1)"
    "state g1 = STACK_DRAW" "stackDrawAmount g1 = 2" "currentPlayer g1 = Obj 1"
    and second: "\<And>d. Some d \<in> set (hand_of s1 1) \<and> val (cards_of s1 d) = DRAW_TWO
                    \<and> \<not> wild (cards_of s1 d)
                    \<and> (\<forall>e\<in>set (hand_of s1 0). \<exists>r. e = Some r \<and> val (cards_of s1 r) \<noteq> DRAW_TWO)
           \<Longrightarrow> \<exists>s2 g2. play s1 g1 (Obj 1) (Obj d) = Inr (True, s2, g2)
                   \<and> state g2 = PLAYING \<and> stackDrawAmount g2 = 0 \<and> currentPlayer g2 = Obj 1
                   \<and> length (hand_of s2 0) = length (hand_of s1 0) + 4"
    by blast
  have "case play stack_store stack_game (Obj 0) (Obj 0) of
          Inr (True, s1, g1) \<Rightarrow>
            Some 1 \<in> set (hand_of s1 1) \<and> val (cards_of s1 1) = DRAW_TWO
            \<and> \<not> wild (cards_of s1 1)
            \<and> list_all (\<lambda>e. case e of None \<Rightarrow> False
                              | Some r \<Rightarrow> val (cards_of s1 r) \<noteq> DRAW_TWO) (hand_of s1 0)
        | _ \<Rightarrow> False"
    by code_simp
  with 1(1) have p: "Some 1 \<in> set (hand_of s1 1)" "val (cards_of s1 1) = DRAW_TWO"
    "\<not> wild (cards_of s1 1)"
    "list_all (\<lambda>e. case e of None \<Rightarrow> False | Some r \<Rightarrow> val (cards_of s1 r) \<noteq> DRAW_TWO)
              (hand_of s1 0)"
    by simp_all
  from p(4) have na: "\<forall>e\<in>set (hand_of s1 0). \<exists>r. e = Some r \<and> val (cards_of s1 r) \<noteq> DRAW_TWO"
    by (auto simp: list_all_iff split: option.splits)
  from second[of 1] p(1,2,3) na
  obtain s2 g2 where 2: "play s1 g1 (Obj 1) (Obj 1) = Inr (True, s2, g2)"
    "state g2 = PLAYING" "stackDrawAmount g2 = 0" "currentPlayer g2 = Obj 1"
    "length (hand_of s2 0) = length (hand_of s1 0) + 4"
    by blast
  from two cfg cur st c d enough 1 2 show ?thesis by simp
qed

end
